theory Spec2Isabelle
  imports Main "HOL-Library.Word"
begin

section \<open>vtctldclient query commands (go/cmd/vtctldclient/command/query.go)\<close>

text \<open>
  The file holds four cobra commands: ExecuteFetchAsApp, ExecuteFetchAsDBA,
  ExecuteMultiFetchAsDBA and GetUnresolvedTransactions. Each handler parses its
  positional arguments, calls one vtctld RPC through the package-level \<open>client\<close> and
  prints the reply. The handlers are modelled as functions from the collaborators, the
  option struct and the positional arguments to the returned Go \<open>error\<close> together with
  the ordered trace of the effects the handler performed.
\<close>

subsection \<open>Data\<close>

text \<open>
  Go's \<open>error\<close> values. The spec names three kinds; the payload of the two opaque kinds
  is the message.
\<close>

datatype error =
    MalformedIdentity
  | TransportOrServerError string
  | EncodingError string

text \<open>\<open>topodatapb.TabletAlias\<close>: a cell and a numeric id.\<close>

record TabletAlias =
  Cell :: string
  Uid :: nat

text \<open>
  The option structs. \<open>executeFetchAsDBAOptions\<close> and \<open>executeMultiFetchAsDBAOptions\<close>
  are two variables of the same anonymous struct type, so one record serves both.
  \<open>MaxRows\<close> is an \<open>int64\<close>.
\<close>

record AppOptions =
  appopt_MaxRows :: "64 word"
  appopt_UsePool :: bool
  appopt_JSON :: bool

record DBAOptions =
  dbaopt_MaxRows :: "64 word"
  dbaopt_DisableBinlogs :: bool
  dbaopt_ReloadSchema :: bool
  dbaopt_JSON :: bool

text \<open>
  The request messages, with the fields the struct literals of the handlers name
  (lines 85-90, 130-136, 176-182, 213-215).
\<close>

record ExecuteFetchAsAppRequest =
  app_TabletAlias :: TabletAlias
  app_Query :: string
  app_MaxRows :: "64 word"
  app_UsePool :: bool

record ExecuteFetchAsDBARequest =
  dba_TabletAlias :: TabletAlias
  dba_Query :: string
  dba_MaxRows :: "64 word"
  dba_DisableBinlogs :: bool
  dba_ReloadSchema :: bool

record ExecuteMultiFetchAsDBARequest =
  multi_TabletAlias :: TabletAlias
  multi_Sql :: string
  multi_MaxRows :: "64 word"
  multi_DisableBinlogs :: bool
  multi_ReloadSchema :: bool

record GetUnresolvedTransactionsRequest =
  tx_Keyspace :: string

datatype request =
    AppRequest ExecuteFetchAsAppRequest
  | DBARequest ExecuteFetchAsDBARequest
  | MultiRequest ExecuteMultiFetchAsDBARequest
  | TransactionsRequest GetUnresolvedTransactionsRequest

text \<open>
  The replies. \<open>'q\<close> is the wire form of one query result (\<open>querypb.QueryResult\<close>),
  \<open>'t\<close> the list of unresolved transactions.
\<close>

record 'q ExecuteFetchAsAppResponse =
  app_Result :: 'q

record 'q ExecuteFetchAsDBAResponse =
  dba_Result :: 'q

record 'q ExecuteMultiFetchAsDBAResponse =
  multi_Results :: "'q list"

record 't GetUnresolvedTransactionsResponse =
  tx_Transactions :: 't

text \<open>
  The values the handlers hand to \<open>cli.MarshalJSON\<close>: one decoded result
  (\<open>*sqltypes.Result\<close>), a slice of them, or the transaction list.
\<close>

datatype ('r, 't) json_value =
    JResult 'r
  | JResults "'r list"
  | JTransactions 't

text \<open>
  The effects of a handler, in program order: the \<open>cli.FinishedParsing\<close> checkpoint,
  one RPC with its request, one \<open>fmt.Printf\<close> with the bytes written, one
  \<open>cli.WriteQueryResultTable\<close> with the result it renders.
\<close>

datatype 'r event =
    EvFinishedParsing
  | EvRemoteCall request
  | EvPrintf string
  | EvWriteQueryResultTable 'r

text \<open>
  The collaborators of the handlers. None of them is defined in query.go: the tablet
  alias parser of \<open>topoproto\<close>, the four RPCs of the vtctld \<open>client\<close>, the decoder
  \<open>sqltypes.Proto3ToResult\<close> and the encoder \<open>cli.MarshalJSON\<close>. A Go call returning
  \<open>(value, err)\<close> is a sum, \<open>Inl\<close> the error.
\<close>

record ('q, 'r, 't) collaborators =
  ParseTabletAlias :: "string \<Rightarrow> error + TabletAlias"
  client_ExecuteFetchAsApp ::
    "ExecuteFetchAsAppRequest \<Rightarrow> error + 'q ExecuteFetchAsAppResponse"
  client_ExecuteFetchAsDBA ::
    "ExecuteFetchAsDBARequest \<Rightarrow> error + 'q ExecuteFetchAsDBAResponse"
  client_ExecuteMultiFetchAsDBA ::
    "ExecuteMultiFetchAsDBARequest \<Rightarrow> error + 'q ExecuteMultiFetchAsDBAResponse"
  client_GetUnresolvedTransactions ::
    "GetUnresolvedTransactionsRequest \<Rightarrow> error + 't GetUnresolvedTransactionsResponse"
  Proto3ToResult :: "'q \<Rightarrow> 'r"
  MarshalJSON :: "('r, 't) json_value \<Rightarrow> error + string"

subsection \<open>Positional arguments and flags\<close>

text \<open>
  \<open>cmd.Flags().Arg(i)\<close>: the i-th positional argument, the empty string when there
  is none.
\<close>

definition Arg :: "string list \<Rightarrow> nat \<Rightarrow> string" where
  "Arg args i = (if i < length args then args ! i else [])"

text \<open>
  The flags as given on the command line: \<open>None\<close> for a flag that was not supplied.
\<close>

record AppFlags =
  appflag_max_rows :: "64 word option"
  appflag_use_pool :: "bool option"
  appflag_json :: "bool option"

record DBAFlags =
  dbaflag_max_rows :: "64 word option"
  dbaflag_disable_binlogs :: "bool option"
  dbaflag_reload_schema :: "bool option"
  dbaflag_json :: "bool option"

text \<open>
  \<open>Int64Var(&p, name, value, usage)\<close> and \<open>BoolVar(&p, name, value, usage)\<close> bind a
  variable to a flag: the variable holds the registered default \<open>value\<close> unless the
  flag is supplied, and then the supplied value.
\<close>

definition Int64Var :: "64 word \<Rightarrow> 64 word option \<Rightarrow> 64 word" where
  "Int64Var val supplied = (case supplied of None \<Rightarrow> val | Some v \<Rightarrow> v)"

definition BoolVar :: "bool \<Rightarrow> bool option \<Rightarrow> bool" where
  "BoolVar val supplied = (case supplied of None \<Rightarrow> val | Some v \<Rightarrow> v)"

text \<open>The initial values of the three option variables (lines 67-73, 111-118, 157-164).\<close>

definition executeFetchAsAppOptions :: AppOptions where
  "executeFetchAsAppOptions =
     \<lparr>appopt_MaxRows = 10000, appopt_UsePool = False, appopt_JSON = False\<rparr>"

definition executeFetchAsDBAOptions :: DBAOptions where
  "executeFetchAsDBAOptions =
     \<lparr>dbaopt_MaxRows = 10000, dbaopt_DisableBinlogs = False,
      dbaopt_ReloadSchema = False, dbaopt_JSON = False\<rparr>"

definition executeMultiFetchAsDBAOptions :: DBAOptions where
  "executeMultiFetchAsDBAOptions =
     \<lparr>dbaopt_MaxRows = 10000, dbaopt_DisableBinlogs = False,
      dbaopt_ReloadSchema = False, dbaopt_JSON = False\<rparr>"

text \<open>
  The flag registrations of \<open>init\<close> (lines 229-243), one function per command: the
  option struct once the command line has been read.
\<close>

definition init_ExecuteFetchAsApp :: "AppOptions \<Rightarrow> AppFlags \<Rightarrow> AppOptions" where
  "init_ExecuteFetchAsApp opts fl =
     opts\<lparr>appopt_MaxRows := Int64Var 10000 (appflag_max_rows fl),
          appopt_UsePool := BoolVar False (appflag_use_pool fl),
          appopt_JSON := BoolVar False (appflag_json fl)\<rparr>"

definition init_ExecuteFetchAsDBA :: "DBAOptions \<Rightarrow> DBAFlags \<Rightarrow> DBAOptions" where
  "init_ExecuteFetchAsDBA opts fl =
     opts\<lparr>dbaopt_MaxRows := Int64Var 10000 (dbaflag_max_rows fl),
          dbaopt_DisableBinlogs := BoolVar False (dbaflag_disable_binlogs fl),
          dbaopt_ReloadSchema := BoolVar False (dbaflag_reload_schema fl),
          dbaopt_JSON := BoolVar False (dbaflag_json fl)\<rparr>"

definition init_ExecuteMultiFetchAsDBA :: "DBAOptions \<Rightarrow> DBAFlags \<Rightarrow> DBAOptions" where
  "init_ExecuteMultiFetchAsDBA opts fl =
     opts\<lparr>dbaopt_MaxRows := Int64Var 10000 (dbaflag_max_rows fl),
          dbaopt_DisableBinlogs := BoolVar False (dbaflag_disable_binlogs fl),
          dbaopt_ReloadSchema := BoolVar False (dbaflag_reload_schema fl),
          dbaopt_JSON := BoolVar False (dbaflag_json fl)\<rparr>"

subsection \<open>The handlers\<close>

text \<open>\<open>fmt.Printf("%s\n", data)\<close>: one write of the data and a newline.\<close>

definition Printf_line :: "string \<Rightarrow> 'r event" where
  "Printf_line data = EvPrintf (data @ [CHR 0x0A])"

text \<open>
  A handler returns Go's \<open>error\<close> (\<open>None\<close> for \<open>nil\<close>) and the effects it performed.
  Every \<open>return err\<close> of the source is a branch that stops with the effects made so
  far. The package-level option variable a handler reads is its second argument; the
  \<open>cmd\<close> argument is read for its positional arguments only, which are the third.
  \<open>cobra.ExactArgs\<close> rejects a command line with another number of positional arguments
  before the handler runs; the handlers themselves are defined on every list.
\<close>

definition commandExecuteFetchAsApp ::
  "('q, 'r, 't) collaborators \<Rightarrow> AppOptions \<Rightarrow> string list \<Rightarrow> error option \<times> 'r event list"
where
  "commandExecuteFetchAsApp env opts args =
     (case ParseTabletAlias env (Arg args 0) of
        Inl err \<Rightarrow> (Some err, [])
      | Inr alias \<Rightarrow>
          (let query = Arg args 1;
               req = \<lparr>app_TabletAlias = alias, app_Query = query,
                      app_MaxRows = appopt_MaxRows opts,
                      app_UsePool = appopt_UsePool opts\<rparr>;
               tr = [EvFinishedParsing, EvRemoteCall (AppRequest req)]
           in case client_ExecuteFetchAsApp env req of
                Inl err \<Rightarrow> (Some err, tr)
              | Inr resp \<Rightarrow>
                  (let qr = Proto3ToResult env (app_Result resp)
                   in if appopt_JSON opts
                      then (case MarshalJSON env (JResult qr) of
                              Inl err \<Rightarrow> (Some err, tr)
                            | Inr data \<Rightarrow> (None, tr @ [Printf_line data]))
                      else (None, tr @ [EvWriteQueryResultTable qr]))))"

definition commandExecuteFetchAsDBA ::
  "('q, 'r, 't) collaborators \<Rightarrow> DBAOptions \<Rightarrow> string list \<Rightarrow> error option \<times> 'r event list"
where
  "commandExecuteFetchAsDBA env opts args =
     (case ParseTabletAlias env (Arg args 0) of
        Inl err \<Rightarrow> (Some err, [])
      | Inr alias \<Rightarrow>
          (let query = Arg args 1;
               req = \<lparr>dba_TabletAlias = alias, dba_Query = query,
                      dba_MaxRows = dbaopt_MaxRows opts,
                      dba_DisableBinlogs = dbaopt_DisableBinlogs opts,
                      dba_ReloadSchema = dbaopt_ReloadSchema opts\<rparr>;
               tr = [EvFinishedParsing, EvRemoteCall (DBARequest req)]
           in case client_ExecuteFetchAsDBA env req of
                Inl err \<Rightarrow> (Some err, tr)
              | Inr resp \<Rightarrow>
                  (let qr = Proto3ToResult env (dba_Result resp)
                   in if dbaopt_JSON opts
                      then (case MarshalJSON env (JResult qr) of
                              Inl err \<Rightarrow> (Some err, tr)
                            | Inr data \<Rightarrow> (None, tr @ [Printf_line data]))
                      else (None, tr @ [EvWriteQueryResultTable qr]))))"

text \<open>
  The two loops of the multi-statement handler. Lines 187-191 decode the results of
  the reply one by one, appending to \<open>qrs\<close>; lines 201-203 render the decoded results
  one by one, each call appending to the effects. \<open>var qrs\<close> starts as Go's nil slice,
  which is the empty list here: the handler appends to it, ranges over it and passes it
  on.
\<close>

fun decode_results :: "('q \<Rightarrow> 'r) \<Rightarrow> 'q list \<Rightarrow> 'r list \<Rightarrow> 'r list" where
  "decode_results f [] qrs = qrs"
| "decode_results f (result # results) qrs = decode_results f results (qrs @ [f result])"

fun write_tables :: "'r list \<Rightarrow> 'r event list \<Rightarrow> 'r event list" where
  "write_tables [] tr = tr"
| "write_tables (qr # qrs) tr = write_tables qrs (tr @ [EvWriteQueryResultTable qr])"

definition commandExecuteMultiFetchAsDBA ::
  "('q, 'r, 't) collaborators \<Rightarrow> DBAOptions \<Rightarrow> string list \<Rightarrow> error option \<times> 'r event list"
where
  "commandExecuteMultiFetchAsDBA env opts args =
     (case ParseTabletAlias env (Arg args 0) of
        Inl err \<Rightarrow> (Some err, [])
      | Inr alias \<Rightarrow>
          (let sql = Arg args 1;
               req = \<lparr>multi_TabletAlias = alias, multi_Sql = sql,
                      multi_MaxRows = dbaopt_MaxRows opts,
                      multi_DisableBinlogs = dbaopt_DisableBinlogs opts,
                      multi_ReloadSchema = dbaopt_ReloadSchema opts\<rparr>;
               tr = [EvFinishedParsing, EvRemoteCall (MultiRequest req)]
           in case client_ExecuteMultiFetchAsDBA env req of
                Inl err \<Rightarrow> (Some err, tr)
              | Inr resp \<Rightarrow>
                  (let qrs = decode_results (Proto3ToResult env) (multi_Results resp) []
                   in if dbaopt_JSON opts
                      then (case MarshalJSON env (JResults qrs) of
                              Inl err \<Rightarrow> (Some err, tr)
                            | Inr data \<Rightarrow> (None, tr @ [Printf_line data]))
                      else (None, write_tables qrs tr))))"

definition commandGetUnresolvedTransactions ::
  "('q, 'r, 't) collaborators \<Rightarrow> string list \<Rightarrow> error option \<times> 'r event list"
where
  "commandGetUnresolvedTransactions env args =
     (let keyspace = Arg args 0;
          req = \<lparr>tx_Keyspace = keyspace\<rparr>;
          tr = [EvFinishedParsing, EvRemoteCall (TransactionsRequest req)]
      in case client_GetUnresolvedTransactions env req of
           Inl err \<Rightarrow> (Some err, tr)
         | Inr resp \<Rightarrow>
             (case MarshalJSON env (JTransactions (tx_Transactions resp)) of
                Inl err \<Rightarrow> (Some err, tr)
              | Inr data \<Rightarrow> (None, tr @ [Printf_line data])))"

text \<open>
  The four commands of the \<open>var\<close> block (lines 31-65), each with the handler its
  \<open>RunE\<close> field names. An invocation is a command with the option struct and the
  positional arguments it runs on.
\<close>

datatype invocation =
    ExecuteFetchAsApp AppOptions "string list"
  | ExecuteFetchAsDBA DBAOptions "string list"
  | ExecuteMultiFetchAsDBA DBAOptions "string list"
  | GetUnresolvedTransactions "string list"

fun RunE :: "('q, 'r, 't) collaborators \<Rightarrow> invocation \<Rightarrow> error option \<times> 'r event list" where
  "RunE env (ExecuteFetchAsApp opts args) = commandExecuteFetchAsApp env opts args"
| "RunE env (ExecuteFetchAsDBA opts args) = commandExecuteFetchAsDBA env opts args"
| "RunE env (ExecuteMultiFetchAsDBA opts args) = commandExecuteMultiFetchAsDBA env opts args"
| "RunE env (GetUnresolvedTransactions args) = commandGetUnresolvedTransactions env args"

fun positional :: "invocation \<Rightarrow> string list" where
  "positional (ExecuteFetchAsApp opts args) = args"
| "positional (ExecuteFetchAsDBA opts args) = args"
| "positional (ExecuteMultiFetchAsDBA opts args) = args"
| "positional (GetUnresolvedTransactions args) = args"

fun is_fetch :: "invocation \<Rightarrow> bool" where
  "is_fetch (GetUnresolvedTransactions args) = False"
| "is_fetch cmd = True"

subsection \<open>Reading a trace\<close>

fun remote_calls :: "'r event list \<Rightarrow> request list" where
  "remote_calls [] = []"
| "remote_calls (EvRemoteCall req # tr) = req # remote_calls tr"
| "remote_calls (ev # tr) = remote_calls tr"

fun is_output :: "'r event \<Rightarrow> bool" where
  "is_output (EvPrintf bytes) = True"
| "is_output (EvWriteQueryResultTable qr) = True"
| "is_output ev = False"

definition output_events :: "'r event list \<Rightarrow> 'r event list" where
  "output_events tr = filter is_output tr"

fun table_writes :: "'r event list \<Rightarrow> 'r list" where
  "table_writes [] = []"
| "table_writes (EvWriteQueryResultTable qr # tr) = qr # table_writes tr"
| "table_writes (ev # tr) = table_writes tr"

definition checkpoints :: "'r event list \<Rightarrow> nat" where
  "checkpoints tr = count_list tr EvFinishedParsing"

text \<open>
  The fields a request message carries: those its struct literal in the handler sets
  (lines 85-90, 130-136, 176-182, 213-215), by name. Then the value of a field of a
  request, \<open>None\<close> when the message has no such field.
\<close>

datatype field =
    TabletAlias_field | Query_field | Sql_field | MaxRows_field
  | UsePool_field | DisableBinlogs_field | ReloadSchema_field | Keyspace_field

fun request_fields :: "request \<Rightarrow> field list" where
  "request_fields (AppRequest r) =
     [TabletAlias_field, Query_field, MaxRows_field, UsePool_field]"
| "request_fields (DBARequest r) =
     [TabletAlias_field, Query_field, MaxRows_field, DisableBinlogs_field, ReloadSchema_field]"
| "request_fields (MultiRequest r) =
     [TabletAlias_field, Sql_field, MaxRows_field, DisableBinlogs_field, ReloadSchema_field]"
| "request_fields (TransactionsRequest r) = [Keyspace_field]"

fun request_MaxRows :: "request \<Rightarrow> 64 word option" where
  "request_MaxRows (AppRequest r) = Some (app_MaxRows r)"
| "request_MaxRows (DBARequest r) = Some (dba_MaxRows r)"
| "request_MaxRows (MultiRequest r) = Some (multi_MaxRows r)"
| "request_MaxRows (TransactionsRequest r) = None"

fun request_UsePool :: "request \<Rightarrow> bool option" where
  "request_UsePool (AppRequest r) = Some (app_UsePool r)"
| "request_UsePool req = None"

fun request_DisableBinlogs :: "request \<Rightarrow> bool option" where
  "request_DisableBinlogs (DBARequest r) = Some (dba_DisableBinlogs r)"
| "request_DisableBinlogs (MultiRequest r) = Some (multi_DisableBinlogs r)"
| "request_DisableBinlogs req = None"

fun request_ReloadSchema :: "request \<Rightarrow> bool option" where
  "request_ReloadSchema (DBARequest r) = Some (dba_ReloadSchema r)"
| "request_ReloadSchema (MultiRequest r) = Some (multi_ReloadSchema r)"
| "request_ReloadSchema req = None"

text \<open>
  The error the client answers a request with, \<open>None\<close> when the RPC succeeds; and the
  \<open>JSON\<close> option of an invocation (GetUnresolvedTransactions has no such option and
  always encodes).
\<close>

fun call_error :: "('q, 'r, 't) collaborators \<Rightarrow> request \<Rightarrow> error option" where
  "call_error env (AppRequest r) =
     (case client_ExecuteFetchAsApp env r of Inl err \<Rightarrow> Some err | Inr resp \<Rightarrow> None)"
| "call_error env (DBARequest r) =
     (case client_ExecuteFetchAsDBA env r of Inl err \<Rightarrow> Some err | Inr resp \<Rightarrow> None)"
| "call_error env (MultiRequest r) =
     (case client_ExecuteMultiFetchAsDBA env r of Inl err \<Rightarrow> Some err | Inr resp \<Rightarrow> None)"
| "call_error env (TransactionsRequest r) =
     (case client_GetUnresolvedTransactions env r of Inl err \<Rightarrow> Some err | Inr resp \<Rightarrow> None)"

fun json_mode :: "invocation \<Rightarrow> bool" where
  "json_mode (ExecuteFetchAsApp opts args) = appopt_JSON opts"
| "json_mode (ExecuteFetchAsDBA opts args) = dbaopt_JSON opts"
| "json_mode (ExecuteMultiFetchAsDBA opts args) = dbaopt_JSON opts"
| "json_mode (GetUnresolvedTransactions args) = True"

subsection \<open>The tablet alias parser\<close>

text \<open>
  Modelled from the spec: the helpers of \<open>topoproto.ParseTabletAlias\<close>, which the three
  fetch handlers call and which is not part of query.go. The spec's well-formed token
  is \<open>zone1-0000000100\<close> and its malformed one \<open>not-an-alias\<close>: the separator is the
  dash; the id is a non-empty run of decimal digits, read in base ten. The spec gives
  no bound for the id.
\<close>

fun split_on :: "char \<Rightarrow> string \<Rightarrow> string list" where
  "split_on sep [] = [[]]"
| "split_on sep (c # cs) =
     (if c = sep then [] # split_on sep cs
      else (case split_on sep cs of
              [] \<Rightarrow> [[c]]
            | part # parts \<Rightarrow> (c # part) # parts))"

definition is_digit :: "char \<Rightarrow> bool" where
  "is_digit c = (c \<in> set ''0123456789'')"

definition numeric :: "string \<Rightarrow> bool" where
  "numeric s = (s \<noteq> [] \<and> list_all is_digit s)"

definition decimal_value :: "string \<Rightarrow> nat" where
  "decimal_value s = foldl (\<lambda>n c. 10 * n + (of_char c - 48)) 0 s"

text \<open>
  Modelled from the spec: \<open>topoproto.ParseTabletAlias\<close>, missing from the sources. The
  spec gives it as \<open>ParseIdentity(token) -> Identity | MalformedIdentity error\<close>: the
  token must have the two-part (cell, numeric id) shape, and a token with a missing
  separator or a non-numeric id fails with \<open>MalformedIdentity\<close>. A token that splits
  into more than two parts, as \<open>not-an-alias\<close> does, is malformed too.
\<close>

definition topoproto_ParseTabletAlias :: "string \<Rightarrow> error + TabletAlias" where
  "topoproto_ParseTabletAlias tok =
     (case split_on CHR ''-'' tok of
        [cell, uid] \<Rightarrow>
          if numeric uid then Inr \<lparr>Cell = cell, Uid = decimal_value uid\<rparr>
          else Inl MalformedIdentity
      | parts \<Rightarrow> Inl MalformedIdentity)"

text \<open>
  Modelled from the spec: the two-part (cell, numeric id) shape in the spec's own
  words, stated without the parser: a cell free of dashes, one dash, and a non-empty
  run of decimal digits.
\<close>

definition well_formed_alias :: "string \<Rightarrow> bool" where
  "well_formed_alias tok =
     (\<exists>cell uid. tok = cell @ CHR ''-'' # uid \<and> CHR ''-'' \<notin> set cell
        \<and> uid \<noteq> [] \<and> (\<forall>c \<in> set uid. is_digit c))"

subsection \<open>The document encoder\<close>

text \<open>
  Modelled from the spec: the helpers of \<open>cli.MarshalJSON\<close> for a slice, which is not
  part of query.go. Every element is encoded in order and the first failure fails the
  whole encoding (the spec: encoding failures are fatal to the command); the
  collection is written in JSON's array form, the sub-documents in order between
  brackets and separated by commas. The spec fixes no white space.
\<close>

fun encode_all :: "('a \<Rightarrow> error + string) \<Rightarrow> 'a list \<Rightarrow> error + string list" where
  "encode_all enc [] = Inr []"
| "encode_all enc (x # xs) =
     (case enc x of
        Inl err \<Rightarrow> Inl err
      | Inr d \<Rightarrow>
          (case encode_all enc xs of
             Inl err \<Rightarrow> Inl err
           | Inr ds \<Rightarrow> Inr (d # ds)))"

fun join_documents :: "string list \<Rightarrow> string" where
  "join_documents [] = []"
| "join_documents [d] = d"
| "join_documents (d # ds) = d @ '','' @ join_documents ds"

definition collection_document :: "string list \<Rightarrow> string" where
  "collection_document ds = ''['' @ join_documents ds @ '']''"

text \<open>
  Modelled from the spec: \<open>cli.MarshalJSON\<close>, missing from the sources. The spec gives it
  as \<open>SerializeToDocument(value) -> (bytes, error)\<close>, a deterministic encoding of a
  single result, an ordered result batch or a transaction set, and says of the batch:
  the document is an ordered collection of per-statement result documents, not one
  flattened document, in statement order. How one result and how the transaction set
  are written is not said: the two are parameters.
\<close>

fun cli_MarshalJSON ::
  "('r \<Rightarrow> error + string) \<Rightarrow> ('t \<Rightarrow> error + string) \<Rightarrow> ('r, 't) json_value \<Rightarrow> error + string"
where
  "cli_MarshalJSON encode_result encode_transactions (JResult qr) = encode_result qr"
| "cli_MarshalJSON encode_result encode_transactions (JResults qrs) =
     (case encode_all encode_result qrs of
        Inl err \<Rightarrow> Inl err
      | Inr ds \<Rightarrow> Inr (collection_document ds))"
| "cli_MarshalJSON encode_result encode_transactions (JTransactions txs) =
     encode_transactions txs"

subsection \<open>The table renderer\<close>

text \<open>
  Modelled from the spec: \<open>sqltypes.Result\<close>, whose declaration is not part of query.go.
  The spec's tabular result: an ordered sequence of named, typed columns and an ordered
  sequence of rows, each row a sequence of cell values.
\<close>

record Result =
  Fields :: "(string \<times> string) list"
  Rows :: "string list list"

text \<open>
  Modelled from the spec: the helpers of \<open>cli.WriteQueryResultTable\<close>. Values are aligned
  per column: a column is as wide as the longest of its name and its cells, a cell is
  padded with blanks to the width of its column, and the cells of a line are separated
  by one blank. The spec fixes no other separator.
\<close>

definition column_width :: "Result \<Rightarrow> nat \<Rightarrow> nat" where
  "column_width qr j =
     foldl max (length (fst (Fields qr ! j)))
       (map (\<lambda>row. if j < length row then length (row ! j) else 0) (Rows qr))"

definition column_widths :: "Result \<Rightarrow> nat list" where
  "column_widths qr = map (column_width qr) [0 ..< length (Fields qr)]"

definition pad :: "nat \<Rightarrow> string \<Rightarrow> string" where
  "pad w s = s @ replicate (w - length s) CHR '' ''"

fun join_cells :: "string list \<Rightarrow> string" where
  "join_cells [] = []"
| "join_cells [c] = c"
| "join_cells (c # cs) = c @ '' '' @ join_cells cs"

definition table_line :: "nat list \<Rightarrow> string list \<Rightarrow> string" where
  "table_line ws cells = join_cells (map (\<lambda>(w, c). pad w c) (zip ws cells))"

definition header_line :: "Result \<Rightarrow> string" where
  "header_line qr = table_line (column_widths qr) (map fst (Fields qr))"

definition row_lines :: "Result \<Rightarrow> string list" where
  "row_lines qr = map (table_line (column_widths qr)) (Rows qr)"

text \<open>
  Modelled from the spec: \<open>cli.WriteQueryResultTable\<close>, missing from the sources. The
  spec's table mode: for each tabular result independently, the column headers
  followed by one line per row. The value is the block of lines one call writes.
\<close>

definition cli_WriteQueryResultTable :: "Result \<Rightarrow> string list" where
  "cli_WriteQueryResultTable qr = header_line qr # row_lines qr"

text \<open>The table blocks a trace puts on the output, one per rendering call, in order.\<close>

definition rendered_tables :: "Result event list \<Rightarrow> string list list" where
  "rendered_tables tr = map cli_WriteQueryResultTable (table_writes tr)"

subsection \<open>A mock transport\<close>

text \<open>
  Concrete collaborators to run the handlers on: wire results and decoded results are
  strings, the server answers every statement with the one-cell result \<open>1\<close>, and the
  encoder wraps a value in brackets.
\<close>

fun mock_MarshalJSON :: "(string, string list) json_value \<Rightarrow> error + string" where
  "mock_MarshalJSON (JResult qr) = Inr (''{'' @ qr @ ''}'')"
| "mock_MarshalJSON (JResults qrs) = Inr (''['' @ concat (map (\<lambda>qr. ''{'' @ qr @ ''}'') qrs) @ '']'')"
| "mock_MarshalJSON (JTransactions txs) = Inr (''['' @ concat txs @ '']'')"

definition mock :: "(string, string, string list) collaborators" where
  "mock =
     \<lparr>ParseTabletAlias = topoproto_ParseTabletAlias,
      client_ExecuteFetchAsApp = (\<lambda>req. Inr \<lparr>app_Result = ''1''\<rparr>),
      client_ExecuteFetchAsDBA = (\<lambda>req. Inr \<lparr>dba_Result = ''1''\<rparr>),
      client_ExecuteMultiFetchAsDBA = (\<lambda>req. Inr \<lparr>multi_Results = [''1'', ''2'']\<rparr>),
      client_GetUnresolvedTransactions = (\<lambda>req. Inr \<lparr>tx_Transactions = []\<rparr>),
      Proto3ToResult = (\<lambda>q. q),
      MarshalJSON = mock_MarshalJSON\<rparr>"

text \<open>
  The same transport with the document encoder of the section above, which writes one
  result between braces.
\<close>

definition mock_result_document :: "string \<Rightarrow> error + string" where
  "mock_result_document qr = Inr (''{'' @ qr @ ''}'')"

definition mock_transactions_document :: "string list \<Rightarrow> error + string" where
  "mock_transactions_document txs = Inr (''['' @ concat txs @ '']'')"

definition mock_json :: "(string, string, string list) collaborators" where
  "mock_json =
     mock\<lparr>MarshalJSON := cli_MarshalJSON mock_result_document mock_transactions_document\<rparr>"

text \<open>
  A transport whose results are tables: the multi-statement RPC answers with the result
  of \<open>select 1\<close> and a two-column, two-row result.
\<close>

definition select_1 :: Result where
  "select_1 = \<lparr>Fields = [(''1'', ''INT64'')], Rows = [[''1'']]\<rparr>"

definition two_rows :: Result where
  "two_rows =
     \<lparr>Fields = [(''id'', ''INT64''), (''name'', ''VARCHAR'')],
      Rows = [[''7'', ''ab''], [''12'', ''c'']]\<rparr>"

definition mock_tables :: "(Result, Result, string list) collaborators" where
  "mock_tables =
     \<lparr>ParseTabletAlias = topoproto_ParseTabletAlias,
      client_ExecuteFetchAsApp = (\<lambda>req. Inr \<lparr>app_Result = select_1\<rparr>),
      client_ExecuteFetchAsDBA = (\<lambda>req. Inr \<lparr>dba_Result = select_1\<rparr>),
      client_ExecuteMultiFetchAsDBA = (\<lambda>req. Inr \<lparr>multi_Results = [select_1, two_rows]\<rparr>),
      client_GetUnresolvedTransactions = (\<lambda>req. Inr \<lparr>tx_Transactions = []\<rparr>),
      Proto3ToResult = (\<lambda>q. q),
      MarshalJSON = cli_MarshalJSON (\<lambda>qr. Inr ''{}'') (\<lambda>txs. Inr ''[]'')\<rparr>"

text \<open>The same transport with every RPC failing, and with the encoder failing.\<close>

definition mock_down :: "(string, string, string list) collaborators" where
  "mock_down =
     mock\<lparr>client_ExecuteFetchAsApp := (\<lambda>req. Inl (TransportOrServerError ''unavailable'')),
          client_ExecuteFetchAsDBA := (\<lambda>req. Inl (TransportOrServerError ''unavailable'')),
          client_ExecuteMultiFetchAsDBA := (\<lambda>req. Inl (TransportOrServerError ''unavailable'')),
          client_GetUnresolvedTransactions := (\<lambda>req. Inl (TransportOrServerError ''unavailable''))\<rparr>"

definition mock_unencodable :: "(string, string, string list) collaborators" where
  "mock_unencodable = mock\<lparr>MarshalJSON := (\<lambda>v. Inl (EncodingError ''unsupported value''))\<rparr>"

text \<open>A command line that supplies no flag at all.\<close>

definition no_app_flags :: AppFlags where
  "no_app_flags = \<lparr>appflag_max_rows = None, appflag_use_pool = None, appflag_json = None\<rparr>"

definition no_dba_flags :: DBAFlags where
  "no_dba_flags =
     \<lparr>dbaflag_max_rows = None, dbaflag_disable_binlogs = None,
      dbaflag_reload_schema = None, dbaflag_json = None\<rparr>"

section \<open>Properties\<close>

subsection \<open>The loops and the trace projections\<close>

text \<open>
  The decoding loop is a \<open>map\<close> in reply order behind what was accumulated, and the
  rendering loop appends one table write per result, in order.
\<close>

lemma decode_results_map: "decode_results f rs acc = acc @ map f rs"
  by (induction rs arbitrary: acc) auto

lemma write_tables_map: "write_tables qrs tr = tr @ map EvWriteQueryResultTable qrs"
  by (induction qrs arbitrary: tr) auto

lemma remote_calls_append: "remote_calls (tr @ tr') = remote_calls tr @ remote_calls tr'"
  by (induction tr rule: remote_calls.induct) auto

lemma remote_calls_tables: "remote_calls (map EvWriteQueryResultTable qrs) = []"
  by (induction qrs) auto

lemma table_writes_append: "table_writes (tr @ tr') = table_writes tr @ table_writes tr'"
  by (induction tr rule: table_writes.induct) auto

lemma table_writes_tables: "table_writes (map EvWriteQueryResultTable qrs) = qrs"
  by (induction qrs) auto

lemma output_events_tables:
  "output_events (map EvWriteQueryResultTable qrs) = map EvWriteQueryResultTable qrs"
  by (induction qrs) (auto simp: output_events_def)

lemma checkpoints_tables: "checkpoints (map EvWriteQueryResultTable qrs) = 0"
  by (induction qrs) (auto simp: checkpoints_def)

lemma checkpoints_append: "checkpoints (tr @ tr') = checkpoints tr + checkpoints tr'"
  by (induction tr) (auto simp: checkpoints_def)

lemma output_events_append: "output_events (tr @ tr') = output_events tr @ output_events tr'"
  by (simp add: output_events_def)

lemma checkpoints_no_output: "checkpoints [] = 0" "checkpoints [EvPrintf bytes] = 0"
  by (simp_all add: checkpoints_def)

lemma checkpoints_prefix:
  "checkpoints (EvFinishedParsing # EvRemoteCall req # rest) = Suc (checkpoints rest)"
  by (simp add: checkpoints_def)

subsection \<open>The shape of a handler's trace\<close>

text \<open>
  A fetch handler either stops on the alias with no effect, or starts with the
  checkpoint followed by its one RPC; GetUnresolvedTransactions always starts that way.
  What follows holds no further checkpoint and no further RPC.
\<close>

lemma fetch_app_trace:
  "snd (commandExecuteFetchAsApp env opts args) = [] \<and> isl (ParseTabletAlias env (Arg args 0))
   \<or> (\<exists>req rest. snd (commandExecuteFetchAsApp env opts args)
           = EvFinishedParsing # EvRemoteCall req # rest
         \<and> remote_calls rest = [] \<and> checkpoints rest = 0
         \<and> \<not> isl (ParseTabletAlias env (Arg args 0)))"
  by (auto simp: commandExecuteFetchAsApp_def Let_def Printf_line_def checkpoints_def
           split: sum.splits)

lemma fetch_dba_trace:
  "snd (commandExecuteFetchAsDBA env opts args) = [] \<and> isl (ParseTabletAlias env (Arg args 0))
   \<or> (\<exists>req rest. snd (commandExecuteFetchAsDBA env opts args)
           = EvFinishedParsing # EvRemoteCall req # rest
         \<and> remote_calls rest = [] \<and> checkpoints rest = 0
         \<and> \<not> isl (ParseTabletAlias env (Arg args 0)))"
  by (auto simp: commandExecuteFetchAsDBA_def Let_def Printf_line_def checkpoints_def
           split: sum.splits)

lemma fetch_multi_trace:
  "snd (commandExecuteMultiFetchAsDBA env opts args) = []
     \<and> isl (ParseTabletAlias env (Arg args 0))
   \<or> (\<exists>req rest. snd (commandExecuteMultiFetchAsDBA env opts args)
           = EvFinishedParsing # EvRemoteCall req # rest
         \<and> remote_calls rest = [] \<and> checkpoints rest = 0
         \<and> \<not> isl (ParseTabletAlias env (Arg args 0)))"
  by (auto simp: commandExecuteMultiFetchAsDBA_def Let_def Printf_line_def write_tables_map
                 remote_calls_tables checkpoints_tables checkpoints_no_output
           split: sum.splits)

lemma transactions_trace:
  "\<exists>req rest. snd (commandGetUnresolvedTransactions env args)
           = EvFinishedParsing # EvRemoteCall req # rest
         \<and> remote_calls rest = [] \<and> checkpoints rest = 0"
  by (auto simp: commandGetUnresolvedTransactions_def Let_def Printf_line_def checkpoints_def
           split: sum.splits)

lemma multi_sent_request:
  assumes "EvRemoteCall (MultiRequest req) \<in> set (snd (commandExecuteMultiFetchAsDBA env opts args))"
  shows "\<exists>alias. ParseTabletAlias env (Arg args 0) = Inr alias
           \<and> req = \<lparr>multi_TabletAlias = alias, multi_Sql = Arg args 1,
                    multi_MaxRows = dbaopt_MaxRows opts,
                    multi_DisableBinlogs = dbaopt_DisableBinlogs opts,
                    multi_ReloadSchema = dbaopt_ReloadSchema opts\<rparr>"
  using assms
  by (auto simp: commandExecuteMultiFetchAsDBA_def Let_def Printf_line_def write_tables_map
           split: sum.splits if_splits)

subsection \<open>The tablet alias parser accepts exactly the two-part shape\<close>

lemma split_on_nonempty: "split_on sep s \<noteq> []"
  by (induction s) (auto split: list.splits)

lemma split_on_single: "split_on sep s = [a] \<longleftrightarrow> s = a \<and> sep \<notin> set a"
proof (induction s arbitrary: a)
  case Nil
  then show ?case by auto
next
  case (Cons c cs)
  show ?case
  proof (cases "c = sep")
    case True
    have "split_on sep (c # cs) \<noteq> [a]"
      using True split_on_nonempty [of sep cs] by simp
    moreover have "\<not> (c # cs = a \<and> sep \<notin> set a)"
      using True by auto
    ultimately show ?thesis by simp
  next
    case False
    obtain p ps where sp: "split_on sep cs = p # ps"
      using split_on_nonempty [of sep cs] by (cases "split_on sep cs") auto
    have "split_on sep (c # cs) = [a] \<longleftrightarrow> (a = c # p \<and> ps = [])"
      using False sp by auto
    also have "\<dots> \<longleftrightarrow> (\<exists>a'. a = c # a' \<and> split_on sep cs = [a'])"
      using sp by auto
    also have "\<dots> \<longleftrightarrow> (\<exists>a'. a = c # a' \<and> cs = a' \<and> sep \<notin> set a')"
      by (simp add: Cons.IH)
    also have "\<dots> \<longleftrightarrow> (c # cs = a \<and> sep \<notin> set a)"
      using False by auto
    finally show ?thesis .
  qed
qed

lemma split_on_pair:
  "split_on sep s = [a, b] \<longleftrightarrow> s = a @ sep # b \<and> sep \<notin> set a \<and> sep \<notin> set b"
proof (induction s arbitrary: a)
  case Nil
  then show ?case by simp
next
  case (Cons c cs)
  show ?case
  proof (cases "c = sep")
    case True
    have "split_on sep (c # cs) = [a, b] \<longleftrightarrow> a = [] \<and> split_on sep cs = [b]"
      using True by auto
    also have "\<dots> \<longleftrightarrow> a = [] \<and> cs = b \<and> sep \<notin> set b"
      by (simp add: split_on_single)
    also have "\<dots> \<longleftrightarrow> c # cs = a @ sep # b \<and> sep \<notin> set a \<and> sep \<notin> set b"
      using True by (cases a) auto
    finally show ?thesis .
  next
    case False
    obtain p ps where sp: "split_on sep cs = p # ps"
      using split_on_nonempty [of sep cs] by (cases "split_on sep cs") auto
    have "split_on sep (c # cs) = [a, b] \<longleftrightarrow> (a = c # p \<and> ps = [b])"
      using False sp by auto
    also have "\<dots> \<longleftrightarrow> (\<exists>a'. a = c # a' \<and> split_on sep cs = [a', b])"
      using sp by auto
    also have "\<dots> \<longleftrightarrow> (\<exists>a'. a = c # a' \<and> cs = a' @ sep # b \<and> sep \<notin> set a' \<and> sep \<notin> set b)"
      by (simp add: Cons.IH)
    also have "\<dots> \<longleftrightarrow> c # cs = a @ sep # b \<and> sep \<notin> set a \<and> sep \<notin> set b"
      using False by (cases a) auto
    finally show ?thesis .
  qed
qed

lemma dash_not_digit: "\<not> is_digit CHR ''-''"
  by (simp add: is_digit_def)

lemma parse_succeeds_iff:
  "(\<exists>alias. topoproto_ParseTabletAlias tok = Inr alias) \<longleftrightarrow> well_formed_alias tok"
proof
  assume "\<exists>alias. topoproto_ParseTabletAlias tok = Inr alias"
  then obtain cell uid where sp: "split_on CHR ''-'' tok = [cell, uid]" and num: "numeric uid"
    by (auto simp: topoproto_ParseTabletAlias_def split: list.splits if_splits)
  from sp have "tok = cell @ CHR ''-'' # uid" "CHR ''-'' \<notin> set cell"
    by (simp_all add: split_on_pair)
  with num show "well_formed_alias tok"
    unfolding well_formed_alias_def numeric_def list_all_iff by blast
next
  assume "well_formed_alias tok"
  then obtain cell uid where tok: "tok = cell @ CHR ''-'' # uid" and cell: "CHR ''-'' \<notin> set cell"
    and ne: "uid \<noteq> []" and dig: "\<forall>c \<in> set uid. is_digit c"
    unfolding well_formed_alias_def by blast
  from dig dash_not_digit have "CHR ''-'' \<notin> set uid" by blast
  with tok cell have "split_on CHR ''-'' tok = [cell, uid]"
    by (simp add: split_on_pair)
  moreover from ne dig have "numeric uid"
    by (simp add: numeric_def list_all_iff)
  ultimately show "\<exists>alias. topoproto_ParseTabletAlias tok = Inr alias"
    by (simp add: topoproto_ParseTabletAlias_def)
qed

lemma parse_fails_MalformedIdentity:
  "\<not> well_formed_alias tok \<Longrightarrow> topoproto_ParseTabletAlias tok = Inl MalformedIdentity"
  using parse_succeeds_iff [of tok]
  by (auto simp: topoproto_ParseTabletAlias_def split: list.splits if_splits)

lemma parse_zone1:
  "topoproto_ParseTabletAlias ''zone1-0000000100'' = Inr \<lparr>Cell = ''zone1'', Uid = 100\<rparr>"
  by (simp add: topoproto_ParseTabletAlias_def numeric_def is_digit_def decimal_value_def)

lemma parse_not_an_alias:
  "topoproto_ParseTabletAlias ''not-an-alias'' = Inl MalformedIdentity"
  by (simp add: topoproto_ParseTabletAlias_def)

lemma not_an_alias_malformed: "\<not> well_formed_alias ''not-an-alias''"
  using parse_succeeds_iff [of "''not-an-alias''"] by (simp add: parse_not_an_alias)

subsection \<open>Runs on the mock transport\<close>

lemma mock_app_calls:
  "remote_calls (snd (commandExecuteFetchAsApp mock
      (init_ExecuteFetchAsApp executeFetchAsAppOptions afl) [''zone1-0000000100'', q]))
   = [AppRequest \<lparr>app_TabletAlias = \<lparr>Cell = ''zone1'', Uid = 100\<rparr>, app_Query = q,
        app_MaxRows = Int64Var 10000 (appflag_max_rows afl),
        app_UsePool = BoolVar False (appflag_use_pool afl)\<rparr>]"
  by (simp add: commandExecuteFetchAsApp_def init_ExecuteFetchAsApp_def mock_def Arg_def
                parse_zone1 Printf_line_def Let_def)

lemma mock_dba_calls:
  "remote_calls (snd (commandExecuteFetchAsDBA mock
      (init_ExecuteFetchAsDBA executeFetchAsDBAOptions dfl) [''zone1-0000000100'', q]))
   = [DBARequest \<lparr>dba_TabletAlias = \<lparr>Cell = ''zone1'', Uid = 100\<rparr>, dba_Query = q,
        dba_MaxRows = Int64Var 10000 (dbaflag_max_rows dfl),
        dba_DisableBinlogs = BoolVar False (dbaflag_disable_binlogs dfl),
        dba_ReloadSchema = BoolVar False (dbaflag_reload_schema dfl)\<rparr>]"
  by (simp add: commandExecuteFetchAsDBA_def init_ExecuteFetchAsDBA_def mock_def Arg_def
                parse_zone1 Printf_line_def Let_def)

lemma mock_multi_calls:
  "remote_calls (snd (commandExecuteMultiFetchAsDBA mock
      (init_ExecuteMultiFetchAsDBA executeMultiFetchAsDBAOptions mfl)
      [''zone1-0000000100'', q]))
   = [MultiRequest \<lparr>multi_TabletAlias = \<lparr>Cell = ''zone1'', Uid = 100\<rparr>,
        multi_Sql = q,
        multi_MaxRows = Int64Var 10000 (dbaflag_max_rows mfl),
        multi_DisableBinlogs = BoolVar False (dbaflag_disable_binlogs mfl),
        multi_ReloadSchema = BoolVar False (dbaflag_reload_schema mfl)\<rparr>]"
  by (simp add: commandExecuteMultiFetchAsDBA_def init_ExecuteMultiFetchAsDBA_def mock_def
                Arg_def parse_zone1 Printf_line_def write_tables_map decode_results_map Let_def
                remote_calls_append remote_calls_tables)

lemma mock_app_table_run:
  "RunE mock (ExecuteFetchAsApp executeFetchAsAppOptions [''zone1-0000000100'', ''select 1''])
   = (None,
      [EvFinishedParsing,
       EvRemoteCall (AppRequest
         \<lparr>app_TabletAlias = \<lparr>Cell = ''zone1'', Uid = 100\<rparr>, app_Query = ''select 1'',
          app_MaxRows = 10000, app_UsePool = False\<rparr>),
       EvWriteQueryResultTable ''1''])"
  by (simp add: commandExecuteFetchAsApp_def mock_def Arg_def parse_zone1 Let_def
                executeFetchAsAppOptions_def)

lemma mock_transactions_run:
  "commandGetUnresolvedTransactions mock [ks]
   = (None,
      [EvFinishedParsing, EvRemoteCall (TransactionsRequest \<lparr>tx_Keyspace = ks\<rparr>),
       EvPrintf (''[]'' @ [CHR 0x0A])])"
  by (simp add: commandGetUnresolvedTransactions_def mock_def Arg_def Let_def Printf_line_def)

lemma mock_down_multi_run:
  "RunE mock_down
     (ExecuteMultiFetchAsDBA executeMultiFetchAsDBAOptions
        [''zone1-0000000100'', ''select 1; select x''])
   = (Some (TransportOrServerError ''unavailable''),
      [EvFinishedParsing,
       EvRemoteCall (MultiRequest
         \<lparr>multi_TabletAlias = \<lparr>Cell = ''zone1'', Uid = 100\<rparr>,
          multi_Sql = ''select 1; select x'', multi_MaxRows = 10000,
          multi_DisableBinlogs = False, multi_ReloadSchema = False\<rparr>)])"
  by (simp add: commandExecuteMultiFetchAsDBA_def mock_down_def mock_def Arg_def parse_zone1
                executeMultiFetchAsDBAOptions_def)

lemma unencodable_app_run:
  "commandExecuteFetchAsApp mock_unencodable (executeFetchAsAppOptions\<lparr>appopt_JSON := True\<rparr>)
      [''zone1-0000000100'', q]
   = (Some (EncodingError ''unsupported value''),
      [EvFinishedParsing,
       EvRemoteCall (AppRequest
         \<lparr>app_TabletAlias = \<lparr>Cell = ''zone1'', Uid = 100\<rparr>, app_Query = q,
          app_MaxRows = 10000, app_UsePool = False\<rparr>)])"
  by (simp add: commandExecuteFetchAsApp_def mock_unencodable_def mock_def Arg_def parse_zone1
                Let_def executeFetchAsAppOptions_def)

lemma unencodable_dba_run:
  "commandExecuteFetchAsDBA mock_unencodable (executeFetchAsDBAOptions\<lparr>dbaopt_JSON := True\<rparr>)
      [''zone1-0000000100'', q]
   = (Some (EncodingError ''unsupported value''),
      [EvFinishedParsing,
       EvRemoteCall (DBARequest
         \<lparr>dba_TabletAlias = \<lparr>Cell = ''zone1'', Uid = 100\<rparr>, dba_Query = q,
          dba_MaxRows = 10000, dba_DisableBinlogs = False, dba_ReloadSchema = False\<rparr>)])"
  by (simp add: commandExecuteFetchAsDBA_def mock_unencodable_def mock_def Arg_def parse_zone1
                Let_def executeFetchAsDBAOptions_def)

lemma unencodable_multi_run:
  "commandExecuteMultiFetchAsDBA mock_unencodable
      (executeMultiFetchAsDBAOptions\<lparr>dbaopt_JSON := True\<rparr>) [''zone1-0000000100'', q]
   = (Some (EncodingError ''unsupported value''),
      [EvFinishedParsing,
       EvRemoteCall (MultiRequest
         \<lparr>multi_TabletAlias = \<lparr>Cell = ''zone1'', Uid = 100\<rparr>, multi_Sql = q,
          multi_MaxRows = 10000, multi_DisableBinlogs = False, multi_ReloadSchema = False\<rparr>)])"
  by (simp add: commandExecuteMultiFetchAsDBA_def mock_unencodable_def mock_def Arg_def
                parse_zone1 Let_def executeMultiFetchAsDBAOptions_def)

lemma unencodable_transactions_run:
  "commandGetUnresolvedTransactions mock_unencodable [ks]
   = (Some (EncodingError ''unsupported value''),
      [EvFinishedParsing, EvRemoteCall (TransactionsRequest \<lparr>tx_Keyspace = ks\<rparr>)])"
  by (simp add: commandGetUnresolvedTransactions_def mock_unencodable_def mock_def Arg_def
                Let_def)

subsection \<open>The document encoder and the table renderer\<close>

text \<open>
  Encoding every element of a slice succeeds when each element can be encoded, and
  gives one sub-document per element, in order.
\<close>

lemma encode_all_total:
  assumes "\<forall>x \<in> set xs. \<not> isl (enc x)"
  shows "\<exists>ds. encode_all enc xs = Inr ds \<and> length ds = length xs
           \<and> (\<forall>i < length xs. enc (xs ! i) = Inr (ds ! i))"
  using assms
proof (induction xs)
  case Nil
  then show ?case by simp
next
  case (Cons x xs)
  from Cons.prems obtain d where d: "enc x = Inr d"
    by (cases "enc x") auto
  from Cons.prems have "\<forall>y \<in> set xs. \<not> isl (enc y)" by simp
  from Cons.IH [OF this] obtain ds where ds: "encode_all enc xs = Inr ds"
    and len: "length ds = length xs"
    and nth: "\<forall>i < length xs. enc (xs ! i) = Inr (ds ! i)"
    by blast
  have "encode_all enc (x # xs) = Inr (d # ds)"
    using d ds by simp
  moreover have "length (d # ds) = length (x # xs)"
    using len by simp
  moreover have "\<forall>i < length (x # xs). enc ((x # xs) ! i) = Inr ((d # ds) ! i)"
  proof (intro allI impI)
    fix i assume "i < length (x # xs)"
    then show "enc ((x # xs) ! i) = Inr ((d # ds) ! i)"
      using d nth by (cases i) auto
  qed
  ultimately show ?case by blast
qed

lemma two_documents:
  assumes "length ds = 2" and "ds ! 0 = a" and "ds ! 1 = b"
  shows "ds = [a, b]"
proof -
  from assms(1) obtain x y where "ds = [x, y]"
    by (cases ds; cases "tl ds"; auto)
  with assms(2,3) show ?thesis by simp
qed

lemma mock_json_multi_run:
  "commandExecuteMultiFetchAsDBA mock_json (executeMultiFetchAsDBAOptions\<lparr>dbaopt_JSON := True\<rparr>)
      [''zone1-0000000100'', ''select 1; select 2'']
   = (None,
      [EvFinishedParsing,
       EvRemoteCall (MultiRequest
         \<lparr>multi_TabletAlias = \<lparr>Cell = ''zone1'', Uid = 100\<rparr>,
          multi_Sql = ''select 1; select 2'', multi_MaxRows = 10000,
          multi_DisableBinlogs = False, multi_ReloadSchema = False\<rparr>),
       EvPrintf (''[{1},{2}]'' @ [CHR 0x0A])])"
  by (simp add: commandExecuteMultiFetchAsDBA_def mock_json_def mock_def Arg_def parse_zone1
                Let_def executeMultiFetchAsDBAOptions_def Printf_line_def
                mock_result_document_def collection_document_def)

lemma mock_tables_multi_run:
  "commandExecuteMultiFetchAsDBA mock_tables executeMultiFetchAsDBAOptions
      [''zone1-0000000100'', ''select 1; select id, name from t'']
   = (None,
      [EvFinishedParsing,
       EvRemoteCall (MultiRequest
         \<lparr>multi_TabletAlias = \<lparr>Cell = ''zone1'', Uid = 100\<rparr>,
          multi_Sql = ''select 1; select id, name from t'', multi_MaxRows = 10000,
          multi_DisableBinlogs = False, multi_ReloadSchema = False\<rparr>),
       EvWriteQueryResultTable select_1, EvWriteQueryResultTable two_rows])"
  by (simp add: commandExecuteMultiFetchAsDBA_def mock_tables_def Arg_def parse_zone1 Let_def
                executeMultiFetchAsDBAOptions_def)

lemma select_1_block: "cli_WriteQueryResultTable select_1 = [''1'', ''1'']"
  by (simp add: cli_WriteQueryResultTable_def header_line_def row_lines_def table_line_def
                column_widths_def column_width_def pad_def select_1_def)

lemma two_rows_block:
  "cli_WriteQueryResultTable two_rows = [''id name'', ''7  ab  '', ''12 c   '']"
  by (simp add: cli_WriteQueryResultTable_def header_line_def row_lines_def table_line_def
                column_widths_def column_width_def pad_def two_rows_def upt_rec)

subsection \<open>The claims\<close>

text \<open>
  C1. For every invocation of ExecuteFetchAsApp, ExecuteFetchAsDBA or
  ExecuteMultiFetchAsDBA whose first positional token is not a well-formed two-part
  (cell, numeric id) tablet alias, the handler returns the \<open>MalformedIdentity\<close> error
  and performs no effect at all: no RPC, not even the \<open>FinishedParsing\<close> checkpoint.
  The outcome is the same for every value of the option struct, which the handler has
  not read at that point.
\<close>

theorem malformed_alias_short_circuits:
  assumes "ParseTabletAlias env = topoproto_ParseTabletAlias"
      and "\<not> well_formed_alias (Arg args 0)"
  shows "commandExecuteFetchAsApp env aopts args = (Some MalformedIdentity, [])
       \<and> commandExecuteFetchAsDBA env dopts args = (Some MalformedIdentity, [])
       \<and> commandExecuteMultiFetchAsDBA env mopts args = (Some MalformedIdentity, [])"
  using assms
  by (simp add: commandExecuteFetchAsApp_def commandExecuteFetchAsDBA_def
                commandExecuteMultiFetchAsDBA_def parse_fails_MalformedIdentity)

text \<open>
  The spec's scenario: the token \<open>not-an-alias\<close> on the mock transport.
\<close>

theorem malformed_alias_short_circuits_witness:
  "ParseTabletAlias mock = topoproto_ParseTabletAlias
   \<and> \<not> well_formed_alias (Arg [''not-an-alias'', ''select 1''] 0)
   \<and> commandExecuteFetchAsApp mock executeFetchAsAppOptions [''not-an-alias'', ''select 1'']
       = (Some MalformedIdentity, [])
   \<and> commandExecuteFetchAsDBA mock executeFetchAsDBAOptions [''not-an-alias'', ''select 1'']
       = (Some MalformedIdentity, [])
   \<and> commandExecuteMultiFetchAsDBA mock executeMultiFetchAsDBAOptions
         [''not-an-alias'', ''select 1'']
       = (Some MalformedIdentity, [])"
proof -
  have p: "ParseTabletAlias mock = topoproto_ParseTabletAlias"
    by (simp add: mock_def)
  have m: "\<not> well_formed_alias (Arg [''not-an-alias'', ''select 1''] 0)"
    by (simp add: Arg_def not_an_alias_malformed)
  from malformed_alias_short_circuits [OF p m] p m show ?thesis
    by blast
qed

text \<open>
  C2. For every invocation of a fetch command, every request the handler sends carries
  in \<open>MaxRows\<close> the value given with \<open>--max-rows\<close>, and 10000 when the flag is not
  given. The option struct is the initial value of the variable after the flag
  registrations of \<open>init\<close> have read the command line.
\<close>

theorem max_rows_forwarded:
  "(\<forall>req \<in> set (remote_calls (snd (commandExecuteFetchAsApp env
        (init_ExecuteFetchAsApp executeFetchAsAppOptions afl) args))).
      request_MaxRows req
        = Some (case appflag_max_rows afl of None \<Rightarrow> 10000 | Some v \<Rightarrow> v))
   \<and> (\<forall>req \<in> set (remote_calls (snd (commandExecuteFetchAsDBA env
        (init_ExecuteFetchAsDBA executeFetchAsDBAOptions dfl) args))).
      request_MaxRows req
        = Some (case dbaflag_max_rows dfl of None \<Rightarrow> 10000 | Some v \<Rightarrow> v))
   \<and> (\<forall>req \<in> set (remote_calls (snd (commandExecuteMultiFetchAsDBA env
        (init_ExecuteMultiFetchAsDBA executeMultiFetchAsDBAOptions mfl) args))).
      request_MaxRows req
        = Some (case dbaflag_max_rows mfl of None \<Rightarrow> 10000 | Some v \<Rightarrow> v))"
proof (intro conjI)
  show "\<forall>req \<in> set (remote_calls (snd (commandExecuteFetchAsApp env
        (init_ExecuteFetchAsApp executeFetchAsAppOptions afl) args))).
      request_MaxRows req
        = Some (case appflag_max_rows afl of None \<Rightarrow> 10000 | Some v \<Rightarrow> v)"
    by (auto simp: commandExecuteFetchAsApp_def init_ExecuteFetchAsApp_def Int64Var_def
                   Printf_line_def Let_def
             split: sum.splits if_splits option.splits)
  show "\<forall>req \<in> set (remote_calls (snd (commandExecuteFetchAsDBA env
        (init_ExecuteFetchAsDBA executeFetchAsDBAOptions dfl) args))).
      request_MaxRows req
        = Some (case dbaflag_max_rows dfl of None \<Rightarrow> 10000 | Some v \<Rightarrow> v)"
    by (auto simp: commandExecuteFetchAsDBA_def init_ExecuteFetchAsDBA_def Int64Var_def
                   Printf_line_def Let_def
             split: sum.splits if_splits option.splits)
  show "\<forall>req \<in> set (remote_calls (snd (commandExecuteMultiFetchAsDBA env
        (init_ExecuteMultiFetchAsDBA executeMultiFetchAsDBAOptions mfl) args))).
      request_MaxRows req
        = Some (case dbaflag_max_rows mfl of None \<Rightarrow> 10000 | Some v \<Rightarrow> v)"
    by (auto simp: commandExecuteMultiFetchAsDBA_def init_ExecuteMultiFetchAsDBA_def Int64Var_def
                   Printf_line_def Let_def write_tables_map remote_calls_append
                   remote_calls_tables
             split: sum.splits if_splits option.splits)
qed

text \<open>
  No flag, \<open>--max-rows 5\<close> and \<open>--max-rows 0\<close> on the mock transport: the one request
  of each handler carries 10000, 5 and 0.
\<close>

theorem max_rows_forwarded_witness:
  "map request_MaxRows (remote_calls (snd (commandExecuteFetchAsApp mock
        (init_ExecuteFetchAsApp executeFetchAsAppOptions no_app_flags)
        [''zone1-0000000100'', ''select 1''])))
     = [Some 10000]
   \<and> map request_MaxRows (remote_calls (snd (commandExecuteFetchAsDBA mock
        (init_ExecuteFetchAsDBA executeFetchAsDBAOptions
           (no_dba_flags\<lparr>dbaflag_max_rows := Some 5\<rparr>))
        [''zone1-0000000100'', ''select 1''])))
     = [Some 5]
   \<and> map request_MaxRows (remote_calls (snd (commandExecuteMultiFetchAsDBA mock
        (init_ExecuteMultiFetchAsDBA executeMultiFetchAsDBAOptions
           (no_dba_flags\<lparr>dbaflag_max_rows := Some 0\<rparr>))
        [''zone1-0000000100'', ''select 1''])))
     = [Some 0]"
  using max_rows_forwarded
    [of mock no_app_flags "[''zone1-0000000100'', ''select 1'']"
        "no_dba_flags\<lparr>dbaflag_max_rows := Some 5\<rparr>"
        "no_dba_flags\<lparr>dbaflag_max_rows := Some 0\<rparr>"]
  by (simp add: mock_app_calls mock_dba_calls mock_multi_calls no_app_flags_def
                no_dba_flags_def)

text \<open>
  C3. For every invocation, a request sent by ExecuteFetchAsDBA or
  ExecuteMultiFetchAsDBA has no pool-reuse field, and a request sent by
  ExecuteFetchAsApp has neither a binlog-suppression nor a schema-reload field. Each
  request has exactly the fields of its own tier, and the extra ones hold the values
  of the option struct.
\<close>

theorem request_field_isolation:
  "(\<forall>req \<in> set (remote_calls (snd (commandExecuteFetchAsApp env aopts args))).
      request_fields req = [TabletAlias_field, Query_field, MaxRows_field, UsePool_field]
      \<and> DisableBinlogs_field \<notin> set (request_fields req)
      \<and> ReloadSchema_field \<notin> set (request_fields req)
      \<and> request_UsePool req = Some (appopt_UsePool aopts)
      \<and> request_DisableBinlogs req = None
      \<and> request_ReloadSchema req = None)
   \<and> (\<forall>req \<in> set (remote_calls (snd (commandExecuteFetchAsDBA env dopts args))).
      request_fields req
        = [TabletAlias_field, Query_field, MaxRows_field, DisableBinlogs_field,
           ReloadSchema_field]
      \<and> UsePool_field \<notin> set (request_fields req)
      \<and> request_UsePool req = None
      \<and> request_DisableBinlogs req = Some (dbaopt_DisableBinlogs dopts)
      \<and> request_ReloadSchema req = Some (dbaopt_ReloadSchema dopts))
   \<and> (\<forall>req \<in> set (remote_calls (snd (commandExecuteMultiFetchAsDBA env mopts args))).
      request_fields req
        = [TabletAlias_field, Sql_field, MaxRows_field, DisableBinlogs_field,
           ReloadSchema_field]
      \<and> UsePool_field \<notin> set (request_fields req)
      \<and> request_UsePool req = None
      \<and> request_DisableBinlogs req = Some (dbaopt_DisableBinlogs mopts)
      \<and> request_ReloadSchema req = Some (dbaopt_ReloadSchema mopts))"
proof -
  have app: "remote_calls (snd (commandExecuteFetchAsApp env aopts args)) = [] \<or>
      (\<exists>alias. remote_calls (snd (commandExecuteFetchAsApp env aopts args))
         = [AppRequest \<lparr>app_TabletAlias = alias, app_Query = Arg args 1,
              app_MaxRows = appopt_MaxRows aopts, app_UsePool = appopt_UsePool aopts\<rparr>])"
    by (auto simp: commandExecuteFetchAsApp_def Let_def Printf_line_def split: sum.splits)
  have dba: "remote_calls (snd (commandExecuteFetchAsDBA env dopts args)) = [] \<or>
      (\<exists>alias. remote_calls (snd (commandExecuteFetchAsDBA env dopts args))
         = [DBARequest \<lparr>dba_TabletAlias = alias, dba_Query = Arg args 1,
              dba_MaxRows = dbaopt_MaxRows dopts,
              dba_DisableBinlogs = dbaopt_DisableBinlogs dopts,
              dba_ReloadSchema = dbaopt_ReloadSchema dopts\<rparr>])"
    by (auto simp: commandExecuteFetchAsDBA_def Let_def Printf_line_def split: sum.splits)
  have multi: "remote_calls (snd (commandExecuteMultiFetchAsDBA env mopts args)) = [] \<or>
      (\<exists>alias. remote_calls (snd (commandExecuteMultiFetchAsDBA env mopts args))
         = [MultiRequest \<lparr>multi_TabletAlias = alias, multi_Sql = Arg args 1,
              multi_MaxRows = dbaopt_MaxRows mopts,
              multi_DisableBinlogs = dbaopt_DisableBinlogs mopts,
              multi_ReloadSchema = dbaopt_ReloadSchema mopts\<rparr>])"
    by (auto simp: commandExecuteMultiFetchAsDBA_def Let_def Printf_line_def write_tables_map
                   remote_calls_append remote_calls_tables
             split: sum.splits)
  from app have "\<forall>req \<in> set (remote_calls (snd (commandExecuteFetchAsApp env aopts args))).
      request_fields req = [TabletAlias_field, Query_field, MaxRows_field, UsePool_field]
      \<and> DisableBinlogs_field \<notin> set (request_fields req)
      \<and> ReloadSchema_field \<notin> set (request_fields req)
      \<and> request_UsePool req = Some (appopt_UsePool aopts)
      \<and> request_DisableBinlogs req = None
      \<and> request_ReloadSchema req = None"
    by auto
  moreover from dba
  have "\<forall>req \<in> set (remote_calls (snd (commandExecuteFetchAsDBA env dopts args))).
      request_fields req
        = [TabletAlias_field, Query_field, MaxRows_field, DisableBinlogs_field,
           ReloadSchema_field]
      \<and> UsePool_field \<notin> set (request_fields req)
      \<and> request_UsePool req = None
      \<and> request_DisableBinlogs req = Some (dbaopt_DisableBinlogs dopts)
      \<and> request_ReloadSchema req = Some (dbaopt_ReloadSchema dopts)"
    by auto
  moreover from multi
  have "\<forall>req \<in> set (remote_calls (snd (commandExecuteMultiFetchAsDBA env mopts args))).
      request_fields req
        = [TabletAlias_field, Sql_field, MaxRows_field, DisableBinlogs_field,
           ReloadSchema_field]
      \<and> UsePool_field \<notin> set (request_fields req)
      \<and> request_UsePool req = None
      \<and> request_DisableBinlogs req = Some (dbaopt_DisableBinlogs mopts)
      \<and> request_ReloadSchema req = Some (dbaopt_ReloadSchema mopts)"
    by auto
  ultimately show ?thesis by blast
qed

text \<open>
  One flag of each tier set on the mock transport.
\<close>

theorem request_field_isolation_witness:
  "map request_fields (remote_calls (snd (commandExecuteFetchAsApp mock
        (init_ExecuteFetchAsApp executeFetchAsAppOptions
           (no_app_flags\<lparr>appflag_use_pool := Some True\<rparr>))
        [''zone1-0000000100'', ''select 1''])))
     = [[TabletAlias_field, Query_field, MaxRows_field, UsePool_field]]
   \<and> map request_UsePool (remote_calls (snd (commandExecuteFetchAsApp mock
        (init_ExecuteFetchAsApp executeFetchAsAppOptions
           (no_app_flags\<lparr>appflag_use_pool := Some True\<rparr>))
        [''zone1-0000000100'', ''select 1''])))
     = [Some True]
   \<and> map request_fields (remote_calls (snd (commandExecuteFetchAsDBA mock
        (init_ExecuteFetchAsDBA executeFetchAsDBAOptions
           (no_dba_flags\<lparr>dbaflag_disable_binlogs := Some True\<rparr>))
        [''zone1-0000000100'', ''select 1''])))
     = [[TabletAlias_field, Query_field, MaxRows_field, DisableBinlogs_field,
         ReloadSchema_field]]
   \<and> map request_UsePool (remote_calls (snd (commandExecuteFetchAsDBA mock
        (init_ExecuteFetchAsDBA executeFetchAsDBAOptions
           (no_dba_flags\<lparr>dbaflag_disable_binlogs := Some True\<rparr>))
        [''zone1-0000000100'', ''select 1''])))
     = [None]
   \<and> map request_fields (remote_calls (snd (commandExecuteMultiFetchAsDBA mock
        (init_ExecuteMultiFetchAsDBA executeMultiFetchAsDBAOptions
           (no_dba_flags\<lparr>dbaflag_reload_schema := Some True\<rparr>))
        [''zone1-0000000100'', ''select 1''])))
     = [[TabletAlias_field, Sql_field, MaxRows_field, DisableBinlogs_field,
         ReloadSchema_field]]
   \<and> map request_ReloadSchema (remote_calls (snd (commandExecuteMultiFetchAsDBA mock
        (init_ExecuteMultiFetchAsDBA executeMultiFetchAsDBAOptions
           (no_dba_flags\<lparr>dbaflag_reload_schema := Some True\<rparr>))
        [''zone1-0000000100'', ''select 1''])))
     = [Some True]"
  using request_field_isolation
    [of mock
        "init_ExecuteFetchAsApp executeFetchAsAppOptions
           (no_app_flags\<lparr>appflag_use_pool := Some True\<rparr>)"
        "[''zone1-0000000100'', ''select 1'']"
        "init_ExecuteFetchAsDBA executeFetchAsDBAOptions
           (no_dba_flags\<lparr>dbaflag_disable_binlogs := Some True\<rparr>)"
        "init_ExecuteMultiFetchAsDBA executeMultiFetchAsDBAOptions
           (no_dba_flags\<lparr>dbaflag_reload_schema := Some True\<rparr>)"]
  by (simp add: mock_app_calls mock_dba_calls mock_multi_calls no_app_flags_def
                no_dba_flags_def BoolVar_def)

text \<open>
  C4. For every invocation of ExecuteMultiFetchAsDBA in JSON mode whose reply holds N
  results, each of which can be encoded: the handler succeeds and its whole output is
  one write, a newline after one document, and that document is the ordered collection
  of exactly N sub-documents, the i-th being the document of the decoded i-th result of
  the reply. The encoder is the one modelled from the spec, for any way of writing a
  single result.
\<close>

theorem multi_fetch_json_document:
  assumes "MarshalJSON env = cli_MarshalJSON encode_result encode_transactions"
      and "EvRemoteCall (MultiRequest req)
             \<in> set (snd (commandExecuteMultiFetchAsDBA env opts args))"
      and "client_ExecuteMultiFetchAsDBA env req = Inr resp"
      and "dbaopt_JSON opts"
      and "\<forall>result \<in> set (multi_Results resp).
             \<not> isl (encode_result (Proto3ToResult env result))"
  shows "fst (commandExecuteMultiFetchAsDBA env opts args) = None
       \<and> (\<exists>ds. output_events (snd (commandExecuteMultiFetchAsDBA env opts args))
                  = [EvPrintf (collection_document ds @ [CHR 0x0A])]
              \<and> length ds = length (multi_Results resp)
              \<and> (\<forall>i < length (multi_Results resp).
                    encode_result (Proto3ToResult env (multi_Results resp ! i))
                      = Inr (ds ! i)))"
proof -
  let ?qrs = "map (Proto3ToResult env) (multi_Results resp)"
  from assms(5) have "\<forall>qr \<in> set ?qrs. \<not> isl (encode_result qr)"
    by simp
  from encode_all_total [OF this] obtain ds
    where enc: "encode_all encode_result ?qrs = Inr ds"
      and len: "length ds = length ?qrs"
      and nth: "\<forall>i < length ?qrs. encode_result (?qrs ! i) = Inr (ds ! i)"
    by blast
  from multi_sent_request [OF assms(2)] obtain ta
    where "ParseTabletAlias env (Arg args 0) = Inr ta"
      and "req = \<lparr>multi_TabletAlias = ta, multi_Sql = Arg args 1,
                    multi_MaxRows = dbaopt_MaxRows opts,
                    multi_DisableBinlogs = dbaopt_DisableBinlogs opts,
                    multi_ReloadSchema = dbaopt_ReloadSchema opts\<rparr>"
    by blast
  with assms(1,3,4) enc
  have run: "commandExecuteMultiFetchAsDBA env opts args
          = (None, [EvFinishedParsing, EvRemoteCall (MultiRequest req),
                    EvPrintf (collection_document ds @ [CHR 0x0A])])"
    by (simp add: commandExecuteMultiFetchAsDBA_def Let_def Printf_line_def decode_results_map)
  have out: "output_events (snd (commandExecuteMultiFetchAsDBA env opts args))
      = [EvPrintf (collection_document ds @ [CHR 0x0A])]"
    by (simp add: run output_events_def)
  from len have len': "length ds = length (multi_Results resp)"
    by simp
  from nth have nth': "\<forall>i < length (multi_Results resp).
      encode_result (Proto3ToResult env (multi_Results resp ! i)) = Inr (ds ! i)"
    by simp
  from run out len' nth' show ?thesis
    by auto
qed

text \<open>
  Two statements on the mock transport: the document is \<open>[{1},{2}]\<close>.
\<close>

theorem multi_fetch_json_document_witness:
  "MarshalJSON mock_json = cli_MarshalJSON mock_result_document mock_transactions_document
   \<and> EvRemoteCall (MultiRequest
       \<lparr>multi_TabletAlias = \<lparr>Cell = ''zone1'', Uid = 100\<rparr>,
        multi_Sql = ''select 1; select 2'', multi_MaxRows = 10000,
        multi_DisableBinlogs = False, multi_ReloadSchema = False\<rparr>)
     \<in> set (snd (commandExecuteMultiFetchAsDBA mock_json
           (executeMultiFetchAsDBAOptions\<lparr>dbaopt_JSON := True\<rparr>)
           [''zone1-0000000100'', ''select 1; select 2'']))
   \<and> dbaopt_JSON (executeMultiFetchAsDBAOptions\<lparr>dbaopt_JSON := True\<rparr>)
   \<and> fst (commandExecuteMultiFetchAsDBA mock_json
           (executeMultiFetchAsDBAOptions\<lparr>dbaopt_JSON := True\<rparr>)
           [''zone1-0000000100'', ''select 1; select 2'']) = None
   \<and> output_events (snd (commandExecuteMultiFetchAsDBA mock_json
           (executeMultiFetchAsDBAOptions\<lparr>dbaopt_JSON := True\<rparr>)
           [''zone1-0000000100'', ''select 1; select 2'']))
       = [EvPrintf (collection_document [''{1}'', ''{2}''] @ [CHR 0x0A])]
   \<and> collection_document [''{1}'', ''{2}''] = ''[{1},{2}]''"
proof -
  let ?req = "\<lparr>multi_TabletAlias = \<lparr>Cell = ''zone1'', Uid = 100\<rparr>,
        multi_Sql = ''select 1; select 2'', multi_MaxRows = 10000,
        multi_DisableBinlogs = False, multi_ReloadSchema = False\<rparr>"
  let ?opts = "executeMultiFetchAsDBAOptions\<lparr>dbaopt_JSON := True\<rparr>"
  let ?args = "[''zone1-0000000100'', ''select 1; select 2'']"
  let ?resp = "\<lparr>multi_Results = [''1'', ''2'']\<rparr>"
  have encoder: "MarshalJSON mock_json
      = cli_MarshalJSON mock_result_document mock_transactions_document"
    by (simp add: mock_json_def)
  have sent: "EvRemoteCall (MultiRequest ?req)
      \<in> set (snd (commandExecuteMultiFetchAsDBA mock_json ?opts ?args))"
    by (simp only: mock_json_multi_run) simp
  have reply: "client_ExecuteMultiFetchAsDBA mock_json ?req = Inr ?resp"
    by (simp add: mock_json_def mock_def)
  have json: "dbaopt_JSON ?opts"
    by simp
  have encodable: "\<forall>result \<in> set (multi_Results ?resp).
      \<not> isl (mock_result_document (Proto3ToResult mock_json result))"
    by (simp add: mock_result_document_def)
  from multi_fetch_json_document [OF encoder sent reply json encodable]
  obtain ds where ok: "fst (commandExecuteMultiFetchAsDBA mock_json ?opts ?args) = None"
    and out: "output_events (snd (commandExecuteMultiFetchAsDBA mock_json ?opts ?args))
                = [EvPrintf (collection_document ds @ [CHR 0x0A])]"
    and len: "length ds = length (multi_Results ?resp)"
    and nth: "\<forall>i < length (multi_Results ?resp).
                mock_result_document (Proto3ToResult mock_json (multi_Results ?resp ! i))
                  = Inr (ds ! i)"
    by blast
  from len have l2: "length ds = 2" by simp
  have i0: "(0::nat) < length (multi_Results ?resp)" by simp
  have i1: "(1::nat) < length (multi_Results ?resp)" by simp
  from nth [rule_format, OF i0] have d0: "ds ! 0 = ''{1}''"
    by (simp add: mock_result_document_def mock_json_def mock_def)
  from nth [rule_format, OF i1] have d1: "ds ! 1 = ''{2}''"
    by (simp add: mock_result_document_def mock_json_def mock_def)
  from two_documents [OF l2 d0 d1] have ds: "ds = [''{1}'', ''{2}'']" .
  have bytes: "collection_document [''{1}'', ''{2}''] = ''[{1},{2}]''"
    by (simp add: collection_document_def)
  from encoder sent json ok out ds bytes show ?thesis
    by simp
qed

text \<open>
  C5. For every invocation of ExecuteMultiFetchAsDBA in table mode whose reply holds N
  results, the handler succeeds, writes nothing but tables, and the output is exactly N
  table blocks in reply order, the i-th being the header line of the decoded i-th
  result followed by one line for each of its rows. The renderer is the one modelled
  from the spec.
\<close>

theorem multi_fetch_table_blocks:
  fixes env :: "('q, Result, 't) collaborators"
  assumes "EvRemoteCall (MultiRequest req)
             \<in> set (snd (commandExecuteMultiFetchAsDBA env opts args))"
      and "client_ExecuteMultiFetchAsDBA env req = Inr resp"
      and "\<not> dbaopt_JSON opts"
  shows "fst (commandExecuteMultiFetchAsDBA env opts args) = None
       \<and> output_events (snd (commandExecuteMultiFetchAsDBA env opts args))
           = map (\<lambda>result. EvWriteQueryResultTable (Proto3ToResult env result))
               (multi_Results resp)
       \<and> rendered_tables (snd (commandExecuteMultiFetchAsDBA env opts args))
           = map (\<lambda>result. cli_WriteQueryResultTable (Proto3ToResult env result))
               (multi_Results resp)
       \<and> length (rendered_tables (snd (commandExecuteMultiFetchAsDBA env opts args)))
           = length (multi_Results resp)
       \<and> (\<forall>i < length (multi_Results resp).
             rendered_tables (snd (commandExecuteMultiFetchAsDBA env opts args)) ! i
               = header_line (Proto3ToResult env (multi_Results resp ! i))
                 # row_lines (Proto3ToResult env (multi_Results resp ! i))
             \<and> length (row_lines (Proto3ToResult env (multi_Results resp ! i)))
                 = length (Rows (Proto3ToResult env (multi_Results resp ! i))))"
proof -
  from multi_sent_request [OF assms(1)] obtain ta
    where "ParseTabletAlias env (Arg args 0) = Inr ta"
      and "req = \<lparr>multi_TabletAlias = ta, multi_Sql = Arg args 1,
                    multi_MaxRows = dbaopt_MaxRows opts,
                    multi_DisableBinlogs = dbaopt_DisableBinlogs opts,
                    multi_ReloadSchema = dbaopt_ReloadSchema opts\<rparr>"
    by blast
  with assms(2,3)
  have run: "commandExecuteMultiFetchAsDBA env opts args
          = (None, [EvFinishedParsing, EvRemoteCall (MultiRequest req)]
                   @ map EvWriteQueryResultTable (map (Proto3ToResult env) (multi_Results resp)))"
    by (simp add: commandExecuteMultiFetchAsDBA_def Let_def write_tables_map decode_results_map)
  have ok: "fst (commandExecuteMultiFetchAsDBA env opts args) = None"
    by (simp add: run)
  have out: "output_events (snd (commandExecuteMultiFetchAsDBA env opts args))
      = map (\<lambda>result. EvWriteQueryResultTable (Proto3ToResult env result)) (multi_Results resp)"
    unfolding run
    by (simp add: output_events_append output_events_tables del: map_map)
       (simp add: output_events_def comp_def)
  have tw: "table_writes (snd (commandExecuteMultiFetchAsDBA env opts args))
      = map (Proto3ToResult env) (multi_Results resp)"
    unfolding run
    by (simp add: table_writes_append table_writes_tables del: map_map)
  have blocks: "rendered_tables (snd (commandExecuteMultiFetchAsDBA env opts args))
      = map (\<lambda>result. cli_WriteQueryResultTable (Proto3ToResult env result))
          (multi_Results resp)"
    by (simp add: rendered_tables_def tw comp_def)
  have len: "length (rendered_tables (snd (commandExecuteMultiFetchAsDBA env opts args)))
      = length (multi_Results resp)"
    by (simp add: blocks)
  have each: "\<forall>i < length (multi_Results resp).
      rendered_tables (snd (commandExecuteMultiFetchAsDBA env opts args)) ! i
        = header_line (Proto3ToResult env (multi_Results resp ! i))
          # row_lines (Proto3ToResult env (multi_Results resp ! i))
      \<and> length (row_lines (Proto3ToResult env (multi_Results resp ! i)))
          = length (Rows (Proto3ToResult env (multi_Results resp ! i)))"
    by (simp add: blocks cli_WriteQueryResultTable_def row_lines_def)
  from ok out blocks len each show ?thesis
    by blast
qed

text \<open>
  Two statements on the table transport: a one-line table under the header \<open>1\<close>, then
  a two-row table under the header \<open>id name\<close>.
\<close>

theorem multi_fetch_table_blocks_witness:
  "EvRemoteCall (MultiRequest
       \<lparr>multi_TabletAlias = \<lparr>Cell = ''zone1'', Uid = 100\<rparr>,
        multi_Sql = ''select 1; select id, name from t'', multi_MaxRows = 10000,
        multi_DisableBinlogs = False, multi_ReloadSchema = False\<rparr>)
     \<in> set (snd (commandExecuteMultiFetchAsDBA mock_tables executeMultiFetchAsDBAOptions
           [''zone1-0000000100'', ''select 1; select id, name from t'']))
   \<and> \<not> dbaopt_JSON executeMultiFetchAsDBAOptions
   \<and> fst (commandExecuteMultiFetchAsDBA mock_tables executeMultiFetchAsDBAOptions
           [''zone1-0000000100'', ''select 1; select id, name from t'']) = None
   \<and> rendered_tables (snd (commandExecuteMultiFetchAsDBA mock_tables
           executeMultiFetchAsDBAOptions
           [''zone1-0000000100'', ''select 1; select id, name from t'']))
       = [[''1'', ''1''], [''id name'', ''7  ab  '', ''12 c   '']]"
proof -
  let ?req = "\<lparr>multi_TabletAlias = \<lparr>Cell = ''zone1'', Uid = 100\<rparr>,
        multi_Sql = ''select 1; select id, name from t'', multi_MaxRows = 10000,
        multi_DisableBinlogs = False, multi_ReloadSchema = False\<rparr>"
  let ?args = "[''zone1-0000000100'', ''select 1; select id, name from t'']"
  let ?resp = "\<lparr>multi_Results = [select_1, two_rows]\<rparr>"
  have sent: "EvRemoteCall (MultiRequest ?req)
      \<in> set (snd (commandExecuteMultiFetchAsDBA mock_tables executeMultiFetchAsDBAOptions ?args))"
    by (simp only: mock_tables_multi_run) simp
  have reply: "client_ExecuteMultiFetchAsDBA mock_tables ?req = Inr ?resp"
    by (simp add: mock_tables_def)
  have table: "\<not> dbaopt_JSON executeMultiFetchAsDBAOptions"
    by (simp add: executeMultiFetchAsDBAOptions_def)
  note inst = multi_fetch_table_blocks [OF sent reply table]
  have ok: "fst (commandExecuteMultiFetchAsDBA mock_tables executeMultiFetchAsDBAOptions ?args)
      = None"
    by (rule inst [THEN conjunct1])
  have "rendered_tables (snd (commandExecuteMultiFetchAsDBA mock_tables
          executeMultiFetchAsDBAOptions ?args))
      = map (\<lambda>result. cli_WriteQueryResultTable (Proto3ToResult mock_tables result))
          (multi_Results ?resp)"
    by (rule inst [THEN conjunct2, THEN conjunct2, THEN conjunct1])
  then have blocks: "rendered_tables (snd (commandExecuteMultiFetchAsDBA mock_tables
          executeMultiFetchAsDBAOptions ?args))
      = [[''1'', ''1''], [''id name'', ''7  ab  '', ''12 c   '']]"
    by (simp add: mock_tables_def select_1_block two_rows_block)
  from sent table ok blocks show ?thesis
    by blast
qed

text \<open>
  C6. For every invocation of GetUnresolvedTransactions, the keyspace argument is sent
  to the RPC as it is, whatever it is (the empty string too: the handler checks
  nothing), no table is ever written, and when the RPC and the encoder succeed the
  handler succeeds and its whole output is the encoded reply followed by a newline.
  Whatever the handler writes is that encoded reply.
\<close>

theorem get_unresolved_transactions_document_only:
  "remote_calls (snd (commandGetUnresolvedTransactions env args))
     = [TransactionsRequest \<lparr>tx_Keyspace = Arg args 0\<rparr>]
   \<and> table_writes (snd (commandGetUnresolvedTransactions env args)) = []
   \<and> (\<forall>resp data.
         client_GetUnresolvedTransactions env \<lparr>tx_Keyspace = Arg args 0\<rparr> = Inr resp
         \<longrightarrow> MarshalJSON env (JTransactions (tx_Transactions resp)) = Inr data
         \<longrightarrow> fst (commandGetUnresolvedTransactions env args) = None
             \<and> output_events (snd (commandGetUnresolvedTransactions env args))
                 = [EvPrintf (data @ [CHR 0x0A])])
   \<and> (\<forall>ev \<in> set (output_events (snd (commandGetUnresolvedTransactions env args))).
         \<exists>resp data.
           client_GetUnresolvedTransactions env \<lparr>tx_Keyspace = Arg args 0\<rparr> = Inr resp
           \<and> MarshalJSON env (JTransactions (tx_Transactions resp)) = Inr data
           \<and> ev = EvPrintf (data @ [CHR 0x0A]))"
proof (cases "client_GetUnresolvedTransactions env \<lparr>tx_Keyspace = Arg args 0\<rparr>")
  case (Inl err)
  then have "commandGetUnresolvedTransactions env args
      = (Some err, [EvFinishedParsing,
                    EvRemoteCall (TransactionsRequest \<lparr>tx_Keyspace = Arg args 0\<rparr>)])"
    by (simp add: commandGetUnresolvedTransactions_def Let_def)
  with Inl show ?thesis
    by (simp add: output_events_def)
next
  case (Inr resp)
  show ?thesis
  proof (cases "MarshalJSON env (JTransactions (tx_Transactions resp))")
    case (Inl err)
    with Inr have "commandGetUnresolvedTransactions env args
        = (Some err, [EvFinishedParsing,
                      EvRemoteCall (TransactionsRequest \<lparr>tx_Keyspace = Arg args 0\<rparr>)])"
      by (simp add: commandGetUnresolvedTransactions_def Let_def)
    with Inl Inr show ?thesis
      by (simp add: output_events_def)
  next
    case (Inr data)
    with \<open>client_GetUnresolvedTransactions env \<lparr>tx_Keyspace = Arg args 0\<rparr> = Inr resp\<close>
    have "commandGetUnresolvedTransactions env args
        = (None, [EvFinishedParsing,
                  EvRemoteCall (TransactionsRequest \<lparr>tx_Keyspace = Arg args 0\<rparr>),
                  EvPrintf (data @ [CHR 0x0A])])"
      by (simp add: commandGetUnresolvedTransactions_def Let_def Printf_line_def)
    with Inr \<open>client_GetUnresolvedTransactions env \<lparr>tx_Keyspace = Arg args 0\<rparr> = Inr resp\<close>
    show ?thesis
      by (simp add: output_events_def)
  qed
qed

text \<open>
  The empty keyspace on the mock transport.
\<close>

theorem get_unresolved_transactions_document_only_witness:
  "remote_calls (snd (commandGetUnresolvedTransactions mock ['''']))
     = [TransactionsRequest \<lparr>tx_Keyspace = ''''\<rparr>]
   \<and> client_GetUnresolvedTransactions mock \<lparr>tx_Keyspace = Arg [''''] 0\<rparr>
       = Inr \<lparr>tx_Transactions = []\<rparr>
   \<and> MarshalJSON mock (JTransactions []) = Inr ''[]''
   \<and> EvPrintf (''[]'' @ [CHR 0x0A])
       \<in> set (output_events (snd (commandGetUnresolvedTransactions mock [''''])))
   \<and> fst (commandGetUnresolvedTransactions mock ['''']) = None
   \<and> output_events (snd (commandGetUnresolvedTransactions mock ['''']))
       = [EvPrintf (''[]'' @ [CHR 0x0A])]
   \<and> table_writes (snd (commandGetUnresolvedTransactions mock [''''])) = []"
proof -
  note inst = get_unresolved_transactions_document_only [of mock "['''']"]
  have reply: "client_GetUnresolvedTransactions mock \<lparr>tx_Keyspace = Arg [''''] 0\<rparr>
      = Inr \<lparr>tx_Transactions = []\<rparr>"
    by (simp add: mock_def)
  have enc: "MarshalJSON mock (JTransactions (tx_Transactions \<lparr>tx_Transactions = []\<rparr>))
      = Inr ''[]''"
    by (simp add: mock_def)
  have out: "EvPrintf (''[]'' @ [CHR 0x0A])
      \<in> set (output_events (snd (commandGetUnresolvedTransactions mock [''''])))"
    by (simp add: mock_transactions_run output_events_def)
  have calls: "remote_calls (snd (commandGetUnresolvedTransactions mock ['''']))
      = [TransactionsRequest \<lparr>tx_Keyspace = Arg [''''] 0\<rparr>]"
    by (rule inst [THEN conjunct1])
  have tables: "table_writes (snd (commandGetUnresolvedTransactions mock [''''])) = []"
    by (rule inst [THEN conjunct2, THEN conjunct1])
  have doc: "fst (commandGetUnresolvedTransactions mock ['''']) = None
      \<and> output_events (snd (commandGetUnresolvedTransactions mock ['''']))
          = [EvPrintf (''[]'' @ [CHR 0x0A])]"
    by (rule inst [THEN conjunct2, THEN conjunct2, THEN conjunct1, rule_format, OF reply enc])
  have key: "Arg [''''] 0 = ''''"
    by (simp add: Arg_def)
  have enc': "MarshalJSON mock (JTransactions []) = Inr ''[]''"
    using enc by simp
  from calls key have calls': "remote_calls (snd (commandGetUnresolvedTransactions mock ['''']))
      = [TransactionsRequest \<lparr>tx_Keyspace = ''''\<rparr>]"
    by simp
  from calls' reply enc' out doc tables show ?thesis
    by blast
qed

text \<open>
  C7. For every invocation of any of the four commands in which the RPC returns an
  error, the handler returns that very error, has written nothing (no \<open>Printf\<close>, no
  table), and has made that one RPC only: no retry.
\<close>

theorem remote_error_propagates:
  assumes "EvRemoteCall req \<in> set (snd (RunE env cmd))"
      and "call_error env req = Some e"
  shows "fst (RunE env cmd) = Some e
       \<and> output_events (snd (RunE env cmd)) = []
       \<and> remote_calls (snd (RunE env cmd)) = [req]"
proof (cases cmd)
  case (ExecuteFetchAsApp opts args)
  with assms show ?thesis
    by (auto simp: commandExecuteFetchAsApp_def Let_def output_events_def Printf_line_def
             split: sum.splits if_splits)
next
  case (ExecuteFetchAsDBA opts args)
  with assms show ?thesis
    by (auto simp: commandExecuteFetchAsDBA_def Let_def output_events_def Printf_line_def
             split: sum.splits if_splits)
next
  case (ExecuteMultiFetchAsDBA opts args)
  with assms show ?thesis
    by (auto simp: commandExecuteMultiFetchAsDBA_def Let_def output_events_def Printf_line_def
                   write_tables_map
             split: sum.splits if_splits)
next
  case (GetUnresolvedTransactions args)
  with assms show ?thesis
    by (auto simp: commandGetUnresolvedTransactions_def Let_def output_events_def Printf_line_def
             split: sum.splits if_splits)
qed

text \<open>
  The spec's scenario: a multi-statement batch that fails on the server.
\<close>

theorem remote_error_propagates_witness:
  "EvRemoteCall (MultiRequest
       \<lparr>multi_TabletAlias = \<lparr>Cell = ''zone1'', Uid = 100\<rparr>,
        multi_Sql = ''select 1; select x'', multi_MaxRows = 10000,
        multi_DisableBinlogs = False, multi_ReloadSchema = False\<rparr>)
     \<in> set (snd (RunE mock_down
           (ExecuteMultiFetchAsDBA executeMultiFetchAsDBAOptions
              [''zone1-0000000100'', ''select 1; select x''])))
   \<and> call_error mock_down (MultiRequest
       \<lparr>multi_TabletAlias = \<lparr>Cell = ''zone1'', Uid = 100\<rparr>,
        multi_Sql = ''select 1; select x'', multi_MaxRows = 10000,
        multi_DisableBinlogs = False, multi_ReloadSchema = False\<rparr>)
       = Some (TransportOrServerError ''unavailable'')
   \<and> fst (RunE mock_down
           (ExecuteMultiFetchAsDBA executeMultiFetchAsDBAOptions
              [''zone1-0000000100'', ''select 1; select x'']))
       = Some (TransportOrServerError ''unavailable'')
   \<and> output_events (snd (RunE mock_down
           (ExecuteMultiFetchAsDBA executeMultiFetchAsDBAOptions
              [''zone1-0000000100'', ''select 1; select x'']))) = []"
proof -
  let ?req = "MultiRequest
       \<lparr>multi_TabletAlias = \<lparr>Cell = ''zone1'', Uid = 100\<rparr>,
        multi_Sql = ''select 1; select x'', multi_MaxRows = 10000,
        multi_DisableBinlogs = False, multi_ReloadSchema = False\<rparr>"
  let ?cmd = "ExecuteMultiFetchAsDBA executeMultiFetchAsDBAOptions
              [''zone1-0000000100'', ''select 1; select x'']"
  have sent: "EvRemoteCall ?req \<in> set (snd (RunE mock_down ?cmd))"
    by (simp only: mock_down_multi_run) simp
  have err: "call_error mock_down ?req = Some (TransportOrServerError ''unavailable'')"
    by (simp add: mock_down_def)
  from remote_error_propagates [OF sent err] sent err show ?thesis
    by blast
qed

text \<open>
  C8. For every invocation in JSON mode (GetUnresolvedTransactions has no other mode)
  in which \<open>MarshalJSON\<close> returns an error on the decoded reply, the handler returns
  that error and has written nothing.
\<close>

theorem encoding_error_surfaces:
  "(\<forall>req resp.
      EvRemoteCall (AppRequest req) \<in> set (snd (commandExecuteFetchAsApp env aopts args))
      \<longrightarrow> client_ExecuteFetchAsApp env req = Inr resp
      \<longrightarrow> appopt_JSON aopts
      \<longrightarrow> MarshalJSON env (JResult (Proto3ToResult env (app_Result resp))) = Inl e
      \<longrightarrow> fst (commandExecuteFetchAsApp env aopts args) = Some e
          \<and> output_events (snd (commandExecuteFetchAsApp env aopts args)) = [])
   \<and> (\<forall>req resp.
      EvRemoteCall (DBARequest req) \<in> set (snd (commandExecuteFetchAsDBA env dopts args))
      \<longrightarrow> client_ExecuteFetchAsDBA env req = Inr resp
      \<longrightarrow> dbaopt_JSON dopts
      \<longrightarrow> MarshalJSON env (JResult (Proto3ToResult env (dba_Result resp))) = Inl e
      \<longrightarrow> fst (commandExecuteFetchAsDBA env dopts args) = Some e
          \<and> output_events (snd (commandExecuteFetchAsDBA env dopts args)) = [])
   \<and> (\<forall>req resp.
      EvRemoteCall (MultiRequest req) \<in> set (snd (commandExecuteMultiFetchAsDBA env mopts args))
      \<longrightarrow> client_ExecuteMultiFetchAsDBA env req = Inr resp
      \<longrightarrow> dbaopt_JSON mopts
      \<longrightarrow> MarshalJSON env
            (JResults (decode_results (Proto3ToResult env) (multi_Results resp) [])) = Inl e
      \<longrightarrow> fst (commandExecuteMultiFetchAsDBA env mopts args) = Some e
          \<and> output_events (snd (commandExecuteMultiFetchAsDBA env mopts args)) = [])
   \<and> (\<forall>req resp.
      EvRemoteCall (TransactionsRequest req) \<in> set (snd (commandGetUnresolvedTransactions env targs))
      \<longrightarrow> client_GetUnresolvedTransactions env req = Inr resp
      \<longrightarrow> MarshalJSON env (JTransactions (tx_Transactions resp)) = Inl e
      \<longrightarrow> fst (commandGetUnresolvedTransactions env targs) = Some e
          \<and> output_events (snd (commandGetUnresolvedTransactions env targs)) = [])"
proof (intro conjI allI impI)
  fix req resp
  assume "EvRemoteCall (AppRequest req) \<in> set (snd (commandExecuteFetchAsApp env aopts args))"
    and "client_ExecuteFetchAsApp env req = Inr resp"
    and "appopt_JSON aopts"
    and "MarshalJSON env (JResult (Proto3ToResult env (app_Result resp))) = Inl e"
  then have "commandExecuteFetchAsApp env aopts args
      = (Some e, [EvFinishedParsing, EvRemoteCall (AppRequest req)])"
    by (auto simp: commandExecuteFetchAsApp_def Let_def Printf_line_def split: sum.splits)
  then show "fst (commandExecuteFetchAsApp env aopts args) = Some e"
    and "output_events (snd (commandExecuteFetchAsApp env aopts args)) = []"
    by (simp_all add: output_events_def)
next
  fix req resp
  assume "EvRemoteCall (DBARequest req) \<in> set (snd (commandExecuteFetchAsDBA env dopts args))"
    and "client_ExecuteFetchAsDBA env req = Inr resp"
    and "dbaopt_JSON dopts"
    and "MarshalJSON env (JResult (Proto3ToResult env (dba_Result resp))) = Inl e"
  then have "commandExecuteFetchAsDBA env dopts args
      = (Some e, [EvFinishedParsing, EvRemoteCall (DBARequest req)])"
    by (auto simp: commandExecuteFetchAsDBA_def Let_def Printf_line_def split: sum.splits)
  then show "fst (commandExecuteFetchAsDBA env dopts args) = Some e"
    and "output_events (snd (commandExecuteFetchAsDBA env dopts args)) = []"
    by (simp_all add: output_events_def)
next
  fix req resp
  assume "EvRemoteCall (MultiRequest req)
        \<in> set (snd (commandExecuteMultiFetchAsDBA env mopts args))"
    and "client_ExecuteMultiFetchAsDBA env req = Inr resp"
    and "dbaopt_JSON mopts"
    and "MarshalJSON env
            (JResults (decode_results (Proto3ToResult env) (multi_Results resp) [])) = Inl e"
  then have "commandExecuteMultiFetchAsDBA env mopts args
      = (Some e, [EvFinishedParsing, EvRemoteCall (MultiRequest req)])"
    by (auto simp: commandExecuteMultiFetchAsDBA_def Let_def Printf_line_def split: sum.splits)
  then show "fst (commandExecuteMultiFetchAsDBA env mopts args) = Some e"
    and "output_events (snd (commandExecuteMultiFetchAsDBA env mopts args)) = []"
    by (simp_all add: output_events_def)
next
  fix req resp
  assume "EvRemoteCall (TransactionsRequest req)
        \<in> set (snd (commandGetUnresolvedTransactions env targs))"
    and "client_GetUnresolvedTransactions env req = Inr resp"
    and "MarshalJSON env (JTransactions (tx_Transactions resp)) = Inl e"
  then have "commandGetUnresolvedTransactions env targs
      = (Some e, [EvFinishedParsing, EvRemoteCall (TransactionsRequest req)])"
    by (auto simp: commandGetUnresolvedTransactions_def Let_def Printf_line_def
             split: sum.splits)
  then show "fst (commandGetUnresolvedTransactions env targs) = Some e"
    and "output_events (snd (commandGetUnresolvedTransactions env targs)) = []"
    by (simp_all add: output_events_def)
qed

text \<open>
  The four commands on a transport whose encoder fails.
\<close>

theorem encoding_error_surfaces_witness:
  "EvRemoteCall (AppRequest
       \<lparr>app_TabletAlias = \<lparr>Cell = ''zone1'', Uid = 100\<rparr>, app_Query = ''select 1'',
        app_MaxRows = 10000, app_UsePool = False\<rparr>)
     \<in> set (snd (commandExecuteFetchAsApp mock_unencodable
           (executeFetchAsAppOptions\<lparr>appopt_JSON := True\<rparr>)
           [''zone1-0000000100'', ''select 1'']))
   \<and> fst (commandExecuteFetchAsApp mock_unencodable
           (executeFetchAsAppOptions\<lparr>appopt_JSON := True\<rparr>)
           [''zone1-0000000100'', ''select 1''])
       = Some (EncodingError ''unsupported value'')
   \<and> output_events (snd (commandExecuteFetchAsApp mock_unencodable
           (executeFetchAsAppOptions\<lparr>appopt_JSON := True\<rparr>)
           [''zone1-0000000100'', ''select 1''])) = []
   \<and> fst (commandExecuteFetchAsDBA mock_unencodable
           (executeFetchAsDBAOptions\<lparr>dbaopt_JSON := True\<rparr>)
           [''zone1-0000000100'', ''select 1''])
       = Some (EncodingError ''unsupported value'')
   \<and> output_events (snd (commandExecuteFetchAsDBA mock_unencodable
           (executeFetchAsDBAOptions\<lparr>dbaopt_JSON := True\<rparr>)
           [''zone1-0000000100'', ''select 1''])) = []
   \<and> fst (commandExecuteMultiFetchAsDBA mock_unencodable
           (executeMultiFetchAsDBAOptions\<lparr>dbaopt_JSON := True\<rparr>)
           [''zone1-0000000100'', ''select 1''])
       = Some (EncodingError ''unsupported value'')
   \<and> output_events (snd (commandExecuteMultiFetchAsDBA mock_unencodable
           (executeMultiFetchAsDBAOptions\<lparr>dbaopt_JSON := True\<rparr>)
           [''zone1-0000000100'', ''select 1''])) = []
   \<and> fst (commandGetUnresolvedTransactions mock_unencodable [''ks1''])
       = Some (EncodingError ''unsupported value'')
   \<and> output_events (snd (commandGetUnresolvedTransactions mock_unencodable [''ks1''])) = []"
proof -
  let ?e = "EncodingError ''unsupported value''"
  let ?args = "[''zone1-0000000100'', ''select 1'']"
  let ?aopts = "executeFetchAsAppOptions\<lparr>appopt_JSON := True\<rparr>"
  let ?dopts = "executeFetchAsDBAOptions\<lparr>dbaopt_JSON := True\<rparr>"
  let ?mopts = "executeMultiFetchAsDBAOptions\<lparr>dbaopt_JSON := True\<rparr>"
  let ?areq = "\<lparr>app_TabletAlias = \<lparr>Cell = ''zone1'', Uid = 100\<rparr>, app_Query = ''select 1'',
        app_MaxRows = 10000, app_UsePool = False\<rparr>"
  let ?dreq = "\<lparr>dba_TabletAlias = \<lparr>Cell = ''zone1'', Uid = 100\<rparr>, dba_Query = ''select 1'',
        dba_MaxRows = 10000, dba_DisableBinlogs = False, dba_ReloadSchema = False\<rparr>"
  let ?mreq = "\<lparr>multi_TabletAlias = \<lparr>Cell = ''zone1'', Uid = 100\<rparr>,
        multi_Sql = ''select 1'', multi_MaxRows = 10000,
        multi_DisableBinlogs = False, multi_ReloadSchema = False\<rparr>"
  let ?treq = "\<lparr>tx_Keyspace = ''ks1''\<rparr>"
  note inst = encoding_error_surfaces
    [of mock_unencodable ?aopts ?args ?e ?dopts ?mopts "[''ks1'']"]
  have a1: "EvRemoteCall (AppRequest ?areq)
      \<in> set (snd (commandExecuteFetchAsApp mock_unencodable ?aopts ?args))"
    by (simp only: unencodable_app_run) simp
  have a2: "client_ExecuteFetchAsApp mock_unencodable ?areq = Inr \<lparr>app_Result = ''1''\<rparr>"
    by (simp add: mock_unencodable_def mock_def)
  have a3: "appopt_JSON ?aopts" by simp
  have a4: "MarshalJSON mock_unencodable
      (JResult (Proto3ToResult mock_unencodable (app_Result \<lparr>app_Result = ''1''\<rparr>))) = Inl ?e"
    by (simp add: mock_unencodable_def)
  have d1: "EvRemoteCall (DBARequest ?dreq)
      \<in> set (snd (commandExecuteFetchAsDBA mock_unencodable ?dopts ?args))"
    by (simp only: unencodable_dba_run) simp
  have d2: "client_ExecuteFetchAsDBA mock_unencodable ?dreq = Inr \<lparr>dba_Result = ''1''\<rparr>"
    by (simp add: mock_unencodable_def mock_def)
  have d3: "dbaopt_JSON ?dopts" by simp
  have d4: "MarshalJSON mock_unencodable
      (JResult (Proto3ToResult mock_unencodable (dba_Result \<lparr>dba_Result = ''1''\<rparr>))) = Inl ?e"
    by (simp add: mock_unencodable_def)
  have m1: "EvRemoteCall (MultiRequest ?mreq)
      \<in> set (snd (commandExecuteMultiFetchAsDBA mock_unencodable ?mopts ?args))"
    by (simp only: unencodable_multi_run) simp
  have m2: "client_ExecuteMultiFetchAsDBA mock_unencodable ?mreq
      = Inr \<lparr>multi_Results = [''1'', ''2'']\<rparr>"
    by (simp add: mock_unencodable_def mock_def)
  have m3: "dbaopt_JSON ?mopts" by simp
  have m4: "MarshalJSON mock_unencodable
      (JResults (decode_results (Proto3ToResult mock_unencodable)
         (multi_Results \<lparr>multi_Results = [''1'', ''2'']\<rparr>) [])) = Inl ?e"
    by (simp add: mock_unencodable_def)
  have t1: "EvRemoteCall (TransactionsRequest ?treq)
      \<in> set (snd (commandGetUnresolvedTransactions mock_unencodable [''ks1'']))"
    by (simp only: unencodable_transactions_run) simp
  have t2: "client_GetUnresolvedTransactions mock_unencodable ?treq
      = Inr \<lparr>tx_Transactions = []\<rparr>"
    by (simp add: mock_unencodable_def mock_def)
  have t4: "MarshalJSON mock_unencodable
      (JTransactions (tx_Transactions \<lparr>tx_Transactions = []\<rparr>)) = Inl ?e"
    by (simp add: mock_unencodable_def)
  note app = inst [THEN conjunct1, rule_format, OF a1 a2 a3 a4]
  note dba = inst [THEN conjunct2, THEN conjunct1, rule_format, OF d1 d2 d3 d4]
  note multi = inst [THEN conjunct2, THEN conjunct2, THEN conjunct1, rule_format, OF m1 m2 m3 m4]
  note tx = inst [THEN conjunct2, THEN conjunct2, THEN conjunct2, rule_format, OF t1 t2 t4]
  from a1 app dba multi tx show ?thesis
    by blast
qed

text \<open>
  C9. For every invocation, \<open>FinishedParsing\<close> is called exactly once, as the first
  effect and immediately before the one RPC, except that a fetch command whose tablet
  alias does not parse never reaches it: there the trace is empty. A trace that is not
  empty starts with the checkpoint and the RPC, and holds neither of them again.
\<close>

theorem finished_parsing_checkpoint:
  "checkpoints (snd (RunE env cmd))
     = (if is_fetch cmd \<and> isl (ParseTabletAlias env (Arg (positional cmd) 0)) then 0 else 1)
   \<and> (snd (RunE env cmd) = []
      \<or> (\<exists>req rest. snd (RunE env cmd) = EvFinishedParsing # EvRemoteCall req # rest
            \<and> remote_calls rest = [] \<and> checkpoints rest = 0))"
proof (cases cmd)
  case (ExecuteFetchAsApp opts args)
  from fetch_app_trace [of env opts args] show ?thesis
    unfolding ExecuteFetchAsApp
    by (elim disjE exE conjE) (simp_all add: checkpoints_prefix, simp add: checkpoints_def)
next
  case (ExecuteFetchAsDBA opts args)
  from fetch_dba_trace [of env opts args] show ?thesis
    unfolding ExecuteFetchAsDBA
    by (elim disjE exE conjE) (simp_all add: checkpoints_prefix, simp add: checkpoints_def)
next
  case (ExecuteMultiFetchAsDBA opts args)
  from fetch_multi_trace [of env opts args] show ?thesis
    unfolding ExecuteMultiFetchAsDBA
    by (elim disjE exE conjE) (simp_all add: checkpoints_prefix, simp add: checkpoints_def)
next
  case (GetUnresolvedTransactions args)
  from transactions_trace [of env args] show ?thesis
    unfolding GetUnresolvedTransactions
    by (elim exE conjE) (simp add: checkpoints_prefix)
qed

text \<open>
  A malformed alias, a well-formed one, and GetUnresolvedTransactions.
\<close>

theorem finished_parsing_checkpoint_witness:
  "checkpoints (snd (RunE mock
       (ExecuteFetchAsDBA executeFetchAsDBAOptions [''not-an-alias'', ''select 1''])))
     = 0
   \<and> checkpoints (snd (RunE mock
       (ExecuteFetchAsDBA executeFetchAsDBAOptions [''zone1-0000000100'', ''select 1''])))
     = 1
   \<and> checkpoints (snd (RunE mock (GetUnresolvedTransactions [''ks1'']))) = 1"
proof -
  have bad: "isl (ParseTabletAlias mock (Arg [''not-an-alias'', ''select 1''] 0))"
    by (simp add: mock_def Arg_def parse_not_an_alias)
  have good: "\<not> isl (ParseTabletAlias mock (Arg [''zone1-0000000100'', ''select 1''] 0))"
    by (simp add: mock_def Arg_def parse_zone1)
  from finished_parsing_checkpoint
         [of mock "ExecuteFetchAsDBA executeFetchAsDBAOptions [''not-an-alias'', ''select 1'']"]
       bad
  have c0: "checkpoints (snd (RunE mock
       (ExecuteFetchAsDBA executeFetchAsDBAOptions [''not-an-alias'', ''select 1'']))) = 0"
    by simp
  from finished_parsing_checkpoint
         [of mock "ExecuteFetchAsDBA executeFetchAsDBAOptions
                     [''zone1-0000000100'', ''select 1'']"]
       good
  have c1: "checkpoints (snd (RunE mock
       (ExecuteFetchAsDBA executeFetchAsDBAOptions [''zone1-0000000100'', ''select 1'']))) = 1"
    by simp
  from finished_parsing_checkpoint [of mock "GetUnresolvedTransactions [''ks1'']"]
  have c2: "checkpoints (snd (RunE mock (GetUnresolvedTransactions [''ks1'']))) = 1"
    by simp
  from c0 c1 c2 show ?thesis by blast
qed

text \<open>
  C10. For every invocation of a fetch command in table mode, once the RPC has
  succeeded the handler returns \<open>nil\<close>: rendering tables has no error path.
\<close>

theorem table_mode_cannot_fail:
  assumes "is_fetch cmd"
      and "\<not> json_mode cmd"
      and "EvRemoteCall req \<in> set (snd (RunE env cmd))"
      and "call_error env req = None"
  shows "fst (RunE env cmd) = None"
proof (cases cmd)
  case (ExecuteFetchAsApp opts args)
  with assms show ?thesis
    by (auto simp: commandExecuteFetchAsApp_def Let_def split: sum.splits)
next
  case (ExecuteFetchAsDBA opts args)
  with assms show ?thesis
    by (auto simp: commandExecuteFetchAsDBA_def Let_def split: sum.splits)
next
  case (ExecuteMultiFetchAsDBA opts args)
  with assms show ?thesis
    by (auto simp: commandExecuteMultiFetchAsDBA_def Let_def write_tables_map split: sum.splits)
next
  case (GetUnresolvedTransactions args)
  with assms show ?thesis by simp
qed

text \<open>
  ExecuteFetchAsApp in table mode on the mock transport.
\<close>

theorem table_mode_cannot_fail_witness:
  "is_fetch (ExecuteFetchAsApp executeFetchAsAppOptions [''zone1-0000000100'', ''select 1''])
   \<and> \<not> json_mode
         (ExecuteFetchAsApp executeFetchAsAppOptions [''zone1-0000000100'', ''select 1''])
   \<and> EvRemoteCall (AppRequest
         \<lparr>app_TabletAlias = \<lparr>Cell = ''zone1'', Uid = 100\<rparr>, app_Query = ''select 1'',
          app_MaxRows = 10000, app_UsePool = False\<rparr>)
       \<in> set (snd (RunE mock
             (ExecuteFetchAsApp executeFetchAsAppOptions [''zone1-0000000100'', ''select 1''])))
   \<and> call_error mock (AppRequest
         \<lparr>app_TabletAlias = \<lparr>Cell = ''zone1'', Uid = 100\<rparr>, app_Query = ''select 1'',
          app_MaxRows = 10000, app_UsePool = False\<rparr>) = None
   \<and> fst (RunE mock
         (ExecuteFetchAsApp executeFetchAsAppOptions [''zone1-0000000100'', ''select 1'']))
       = None"
proof -
  let ?cmd = "ExecuteFetchAsApp executeFetchAsAppOptions [''zone1-0000000100'', ''select 1'']"
  let ?req = "AppRequest
         \<lparr>app_TabletAlias = \<lparr>Cell = ''zone1'', Uid = 100\<rparr>, app_Query = ''select 1'',
          app_MaxRows = 10000, app_UsePool = False\<rparr>"
  have f: "is_fetch ?cmd" by simp
  have t: "\<not> json_mode ?cmd" by (simp add: executeFetchAsAppOptions_def)
  have sent: "EvRemoteCall ?req \<in> set (snd (RunE mock ?cmd))"
    by (simp only: mock_app_table_run) simp
  have ok: "call_error mock ?req = None"
    by (simp add: mock_def)
  from table_mode_cannot_fail [OF f t sent ok] f t sent ok show ?thesis
    by blast
qed

end
